theory Spec2Isabelle
  imports Complex_Main "HOL-Library.Word" "HOL-Library.AList" "HOL-Library.Sublist"
begin

section \<open>JavaScript values used by the TaskFlow frontend\<close>

text \<open>
  A JavaScript string is a sequence of UTF-16 code units; \<open>===\<close>, \<open>>\<close> and
  \<open>trim\<close> all work on code units. \<open>js\<close> turns an ASCII literal of the source
  into such a sequence.
\<close>

type_synonym jsstring = "16 word list"

definition js :: "string \<Rightarrow> jsstring" where
  "js s = map (\<lambda>c. of_char c) s"

text \<open>
  Decimal digits of an integer, as \<open>Number.prototype.toString\<close> and template literals
  print it. This is what JavaScript prints for every integer up to \<open>2^53\<close> in magnitude,
  the range of database keys; for a larger double JavaScript prints only the digits that
  tell it from its neighbours, zero-padded, and exponent notation from \<open>10^21\<close>, which this
  function does not follow: it prints every digit.
\<close>

fun digits :: "nat \<Rightarrow> jsstring" where
  "digits n = (if n < 10 then [48 + of_nat n] else digits (n div 10) @ [48 + of_nat (n mod 10)])"

declare digits.simps [simp del]

definition toString :: "int \<Rightarrow> jsstring" where
  "toString i = (if i < 0 then js ''-'' @ digits (nat (- i)) else digits (nat i))"

text \<open>
  JavaScript numbers are IEEE 754 doubles. A finite double is the rational it denotes;
  \<open>to_double\<close> rounds a rational to the nearest double, ties to the even significand of
  53 bits. It is the rounding of every arithmetic operation, for results in the normal
  range (magnitude from \<open>2^-1022\<close> to below \<open>2^1024\<close>), which a ratio of two array
  lengths, its hundredfold, and every integer below the overflow bound lie in.
\<close>

definition round_half_even :: "rat \<Rightarrow> int" where
  "round_half_even m =
     (let f = \<lfloor>m\<rfloor>; d = m - of_int f
      in if d < 1 / 2 then f else if 1 / 2 < d then f + 1 else if even f then f else f + 1)"

text \<open>The number of bits of a positive integer: \<open>2^(n-1) \<le> a < 2^n\<close>.\<close>

function bit_length :: "int \<Rightarrow> nat" where
  "bit_length a = (if a \<le> 0 then 0 else bit_length (a div 2) + 1)"
  by pat_completeness auto
termination
  by (relation "measure nat") auto

declare bit_length.simps [simp del]

text \<open>
  \<open>ilog2 x\<close> is the exponent of the binade of \<open>x > 0\<close>, \<open>2^e \<le> x < 2^(e+1)\<close>: the
  difference of the bit lengths of numerator and denominator, or one less.
\<close>

definition ilog2 :: "rat \<Rightarrow> int" where
  "ilog2 x =
     (case quotient_of x of (p, q) \<Rightarrow>
        (let k = int (bit_length p) - int (bit_length q)
         in if 2 powi k \<le> x then k else k - 1))"

definition to_double :: "rat \<Rightarrow> rat" where
  "to_double x =
     (if x = 0 then 0
      else (let e = ilog2 \<bar>x\<bar>; q = 2 powi (e - 52)
            in of_int (round_half_even (x / q)) * q))"

definition double_div :: "rat \<Rightarrow> rat \<Rightarrow> rat" where
  "double_div a b = to_double (a / b)"

definition double_mul :: "rat \<Rightarrow> rat \<Rightarrow> rat" where
  "double_mul a b = to_double (a * b)"

text \<open>\<open>Math.round\<close>: the nearest integer, a tie going up.\<close>

definition Math_round :: "rat \<Rightarrow> int" where
  "Math_round x = \<lfloor>x + 1 / 2\<rfloor>"

text \<open>
  The values of type \<open>number\<close> that an integer computation can hand to the API layer:
  \<open>NaN\<close>, an integer-valued double, or an infinity. Template literals print them so.
\<close>

datatype number = NaN | Num int | Infinity | Minus_Infinity

fun template_number :: "number \<Rightarrow> jsstring" where
  "template_number NaN = js ''NaN''"
| "template_number (Num i) = toString i"
| "template_number Infinity = js ''Infinity''"
| "template_number Minus_Infinity = js ''-Infinity''"

text \<open>
  The \<open>number\<close> for a mathematical integer: the nearest double, ties to even, which is
  an integer again; an infinity from \<open>2^1024 - 2^970\<close> on, half a step above the largest
  double.
\<close>

definition to_number :: "int \<Rightarrow> number" where
  "to_number n =
     (if 2 ^ 1024 - 2 ^ 970 \<le> \<bar>n\<bar> then (if n < 0 then Minus_Infinity else Infinity)
      else Num \<lfloor>to_double (of_int n)\<rfloor>)"

text \<open>
  Values produced by \<open>response.json()\<close> when read untyped (\<open>any\<close>). Numbers are
  kept as integers: the code only tests them for truthiness. An object is the list of
  its members in the order of the text; \<open>JSON.parse\<close> lets the last duplicate win.
\<close>

datatype json =
    JNull
  | JBool bool
  | JNum int
  | JStr jsstring
  | JArr "json list"
  | JObj "(jsstring \<times> json) list"

text \<open>
  What the code can throw. \<open>Error v\<close> is \<open>new Error(v)\<close>: its message is
  \<open>ToString(v)\<close>, which is \<open>s\<close> itself for \<open>v = JStr s\<close>.
\<close>

datatype exn =
    Error json
  | TypeError
  | SyntaxError
  | FetchRejected

section \<open>services/api.ts: types\<close>

text \<open>Source: \<^verbatim>\<open>src/unnamed/part_002\<close>, the module the others import as \<open>services/api\<close>.\<close>

record User =
  user_id :: int
  user_username :: jsstring
  user_email :: jsstring
  user_is_admin :: bool
  user_is_active :: bool
  user_email_verified :: bool
  user_profile_picture :: "jsstring option"
  user_created_at :: jsstring

record ProfileUpdate =
  pu_username :: "jsstring option"
  pu_email :: "jsstring option"
  pu_profile_picture :: "jsstring option option"

record UserCreate =
  uc_username :: jsstring
  uc_email :: jsstring
  uc_password :: jsstring

record UserLogin =
  ul_username :: jsstring
  ul_password :: jsstring

record TokenResponse =
  access_token :: jsstring
  token_type :: jsstring
  user :: User

text \<open>
  \<open>Todo.description\<close> is declared \<open>string\<close>, but the backend column is optional and
  \<open>todoToTask\<close> guards it with \<open>|| ''\<close>: \<open>None\<close> is JSON \<open>null\<close>.
\<close>

record Todo =
  todo_id :: int
  todo_title :: jsstring
  todo_description :: "jsstring option"
  todo_completed :: bool
  todo_status :: jsstring
  todo_priority :: jsstring
  todo_start_date :: jsstring
  todo_end_date :: jsstring
  todo_category :: jsstring
  todo_created_at :: jsstring
  todo_user_id :: int

text \<open>Optional members (\<open>?:\<close>) are options: \<open>None\<close> is \<open>undefined\<close>, the member left out.\<close>

record TodoCreate =
  tc_title :: jsstring
  tc_description :: "jsstring option"
  tc_completed :: "bool option"
  tc_status :: "jsstring option"
  tc_priority :: "jsstring option"
  tc_start_date :: "jsstring option"
  tc_end_date :: "jsstring option"
  tc_category :: "jsstring option"

record TodoUpdate =
  tu_title :: "jsstring option"
  tu_description :: "jsstring option"
  tu_completed :: "bool option"
  tu_status :: "jsstring option"
  tu_priority :: "jsstring option"
  tu_start_date :: "jsstring option"
  tu_end_date :: "jsstring option"
  tu_category :: "jsstring option"

section \<open>App.tsx: tasks and their conversion\<close>

text \<open>Source: \<^verbatim>\<open>src/unnamed/part_001\<close>, lines 12 to 65.\<close>

text \<open>
  \<open>TaskStatus\<close> and \<open>TaskPriority\<close> are unions of string literals; at run time a
  status is a string, and \<open>todo.status as TaskStatus\<close> checks nothing.
\<close>

definition TaskStatus :: "jsstring list" where
  "TaskStatus = [js ''todo'', js ''in-progress'', js ''done'', js ''blocked'']"

definition TaskPriority :: "jsstring list" where
  "TaskPriority = [js ''low'', js ''medium'', js ''high'']"

text \<open>
  \<open>Omit<Task, 'id' | 'createdAt'>\<close> is the record \<open>TaskData\<close>; \<open>Task\<close> extends it, so
  a function on \<open>TaskData\<close> schemes accepts a \<open>Task\<close> as TypeScript's structural typing does.
  The member \<open>id\<close> is \<open>task_id\<close> here (\<open>id\<close> is HOL's identity function).
\<close>

record TaskData =
  title :: jsstring
  description :: jsstring
  status :: jsstring
  priority :: jsstring
  startDate :: jsstring
  endDate :: jsstring
  category :: jsstring

record Task = TaskData +
  task_id :: jsstring
  createdAt :: jsstring

text \<open>\<open>Partial<Task>\<close>: every member optional.\<close>

record PartialTask =
  pt_id :: "jsstring option"
  pt_title :: "jsstring option"
  pt_description :: "jsstring option"
  pt_status :: "jsstring option"
  pt_priority :: "jsstring option"
  pt_startDate :: "jsstring option"
  pt_endDate :: "jsstring option"
  pt_createdAt :: "jsstring option"
  pt_category :: "jsstring option"

text \<open>\<open>x || ''\<close> on a string or null: null and the empty string both give \<open>''\<close>.\<close>

definition or_empty :: "jsstring option \<Rightarrow> jsstring" where
  "or_empty x = (case x of None \<Rightarrow> [] | Some s \<Rightarrow> (if s = [] then [] else s))"

definition todoToTask :: "Todo \<Rightarrow> Task" where
  "todoToTask todo =
     \<lparr> title = todo_title todo,
       description = or_empty (todo_description todo),
       status = todo_status todo,
       priority = todo_priority todo,
       startDate = todo_start_date todo,
       endDate = todo_end_date todo,
       category = todo_category todo,
       task_id = toString (todo_id todo),
       createdAt = todo_created_at todo \<rparr>"

definition taskToTodoCreate :: "'a TaskData_scheme \<Rightarrow> TodoCreate" where
  "taskToTodoCreate task =
     \<lparr> tc_title = title task,
       tc_description = Some (description task),
       tc_completed = None,
       tc_status = Some (status task),
       tc_priority = Some (priority task),
       tc_start_date = Some (startDate task),
       tc_end_date = Some (endDate task),
       tc_category = Some (category task) \<rparr>"

definition taskToTodoUpdate :: "PartialTask \<Rightarrow> TodoUpdate" where
  "taskToTodoUpdate updates =
     \<lparr> tu_title = pt_title updates,
       tu_description = pt_description updates,
       tu_completed = None,
       tu_status = pt_status updates,
       tu_priority = pt_priority updates,
       tu_start_date = pt_startDate updates,
       tu_end_date = pt_endDate updates,
       tu_category = pt_category updates \<rparr>"

section \<open>components/StatusBadge.tsx\<close>

text \<open>Source: \<^verbatim>\<open>src/frontend/src/components/StatusBadge.tsx\<close>, lines 8 to 47.\<close>

datatype Icon = Circle | Clock | CheckCircle2 | AlertCircle

record StatusConfig =
  icon :: Icon
  label :: jsstring
  className :: jsstring

text \<open>
  The \<open>switch\<close> has no \<open>default\<close>: on any other string the function falls off its
  end and returns \<open>undefined\<close>, here \<open>None\<close>.
\<close>

definition getStatusConfig :: "jsstring \<Rightarrow> StatusConfig option" where
  "getStatusConfig st =
     (if st = js ''todo'' then
        Some \<lparr> icon = Circle, label = js ''To Do'', className = js ''bg-gray-100 text-gray-700'' \<rparr>
      else if st = js ''in-progress'' then
        Some \<lparr> icon = Clock, label = js ''In Progress'', className = js ''bg-blue-100 text-blue-700'' \<rparr>
      else if st = js ''done'' then
        Some \<lparr> icon = CheckCircle2, label = js ''Done'', className = js ''bg-green-100 text-green-700'' \<rparr>
      else if st = js ''blocked'' then
        Some \<lparr> icon = AlertCircle, label = js ''Blocked'', className = js ''bg-red-100 text-red-700'' \<rparr>
      else None)"

text \<open>
  The badge reads \<open>config.icon\<close>, \<open>config.className\<close> and \<open>config.label\<close>; on
  \<open>undefined\<close> the first read throws a \<open>TypeError\<close>. The rendered badge is the triple
  of class name, icon and label text.
\<close>

definition StatusBadge :: "jsstring \<Rightarrow> exn + (jsstring \<times> Icon \<times> jsstring)" where
  "StatusBadge st =
     (case getStatusConfig st of
        None \<Rightarrow> Inl TypeError
      | Some config \<Rightarrow>
          Inr (js ''inline-flex items-center gap-2 px-3 py-1 rounded-full '' @ className config,
               icon config, label config))"

section \<open>services/api.ts: token management and the request helper\<close>

text \<open>
  \<open>JSON.stringify(x)\<close> of a request payload, kept as the payload itself: nothing below
  looks inside the text.
\<close>

datatype json_text =
    Stringify_UserCreate UserCreate
  | Stringify_UserLogin UserLogin
  | Stringify_ProfileUpdate ProfileUpdate
  | Stringify_TodoCreate TodoCreate
  | Stringify_TodoUpdate TodoUpdate

text \<open>\<open>RequestInit\<close>, as far as this code fills it in; a \<open>Record<string, string>\<close> is a map.\<close>

record RequestInit =
  ri_method :: "jsstring option"
  ri_body :: "json_text option"
  ri_headers :: "(jsstring \<rightharpoonup> jsstring) option"

text \<open>One call of \<open>fetch(url, init)\<close>.\<close>

record request =
  req_url :: jsstring
  req_method :: "jsstring option"
  req_body :: "json_text option"
  req_headers :: "jsstring \<rightharpoonup> jsstring"

text \<open>
  The part of the browser the code touches: \<open>localStorage\<close> and the network, the latter
  as the list of the \<open>fetch\<close> calls made so far, oldest first. The server sees nothing
  but these calls.
\<close>

record world =
  localStorage :: "jsstring \<rightharpoonup> jsstring"
  sent :: "request list"

text \<open>
  What one \<open>fetch\<close> comes back with, chosen by the network and the server, hence an
  argument of every function that awaits one:
  \<^item> \<open>Rejected\<close>: the promise rejects (no connection);
  \<^item> \<open>Ok_response b\<close>: \<open>response.ok\<close> holds, and \<open>response.json()\<close> gives \<open>b\<close> at the
    type the caller asked for, \<open>None\<close> when the body is not JSON;
  \<^item> \<open>Error_response status statusText b\<close>: \<open>response.ok\<close> is false, and
    \<open>response.json()\<close> gives \<open>b\<close>, read untyped.
\<close>

datatype 'a fetched =
    Rejected
  | Ok_response "'a option"
  | Error_response nat jsstring "json option"

definition API_BASE_URL :: jsstring where
  "API_BASE_URL = js ''/api''"

definition getToken :: "world \<Rightarrow> jsstring option" where
  "getToken w = localStorage w (js ''auth_token'')"

definition setToken :: "jsstring \<Rightarrow> world \<Rightarrow> world" where
  "setToken token w = w\<lparr>localStorage := (localStorage w)(js ''auth_token'' \<mapsto> token)\<rparr>"

definition removeToken :: "world \<Rightarrow> world" where
  "removeToken w = w\<lparr>localStorage := (localStorage w)(js ''auth_token'' := None)\<rparr>"

text \<open>JavaScript truthiness: of \<open>string | null\<close>, and of an untyped member that may be absent.\<close>

definition truthy_string :: "jsstring option \<Rightarrow> bool" where
  "truthy_string x = (case x of None \<Rightarrow> False | Some s \<Rightarrow> s \<noteq> [])"

fun truthy :: "json option \<Rightarrow> bool" where
  "truthy None = False"
| "truthy (Some JNull) = False"
| "truthy (Some (JBool b)) = b"
| "truthy (Some (JNum n)) = (n \<noteq> 0)"
| "truthy (Some (JStr s)) = (s \<noteq> [])"
| "truthy (Some (JArr xs)) = True"
| "truthy (Some (JObj kvs)) = True"

text \<open>
  \<open>error.detail\<close> on an untyped value: reading a member of \<open>null\<close> throws; an object
  gives its member or \<open>undefined\<close>; a boolean, number, string or array has no such member.
\<close>

fun get_detail :: "json \<Rightarrow> exn + json option" where
  "get_detail JNull = Inl TypeError"
| "get_detail (JObj kvs) = Inr (map_of (rev kvs) (js ''detail''))"
| "get_detail v = Inr None"

text \<open>\<open>a || b\<close> on an untyped member: \<open>a\<close> when it is truthy, else \<open>b\<close>.\<close>

definition or_else :: "json option \<Rightarrow> json \<Rightarrow> json" where
  "or_else a b = (case a of None \<Rightarrow> b | Some v \<Rightarrow> if truthy (Some v) then v else b)"

text \<open>
  \<open>apiRequest\<close>. The headers are \<open>Content-Type\<close>, overridden by the caller's, and
  \<open>Authorization\<close> when the stored token is truthy. Then the one \<open>fetch\<close>; a response
  that is not ok throws \<open>new Error(error.detail || `HTTP ${response.status}`)\<close>, where
  \<open>error\<close> is the parsed body, or \<open>{detail: response.statusText}\<close> when parsing fails.
\<close>

definition apiRequest ::
  "jsstring \<Rightarrow> RequestInit \<Rightarrow> 'a fetched \<Rightarrow> world \<Rightarrow> (exn + 'a) \<times> world" where
  "apiRequest endpoint options outcome w =
     (let token = getToken w;
          headers0 = [js ''Content-Type'' \<mapsto> js ''application/json'']
                       ++ (case ri_headers options of None \<Rightarrow> Map.empty | Some h \<Rightarrow> h);
          headers = (case token of
                       None \<Rightarrow> headers0
                     | Some t \<Rightarrow>
                         if t \<noteq> [] then headers0(js ''Authorization'' \<mapsto> js ''Bearer '' @ t)
                         else headers0);
          w' = w\<lparr>sent := sent w @
                 [\<lparr> req_url = API_BASE_URL @ endpoint,
                     req_method = ri_method options,
                     req_body = ri_body options,
                     req_headers = headers \<rparr>]\<rparr>
      in case outcome of
           Rejected \<Rightarrow> (Inl FetchRejected, w')
         | Ok_response b \<Rightarrow>
             (case b of None \<Rightarrow> (Inl SyntaxError, w') | Some v \<Rightarrow> (Inr v, w'))
         | Error_response st stText b \<Rightarrow>
             (let error = (case b of None \<Rightarrow> JObj [(js ''detail'', JStr stText)] | Some e \<Rightarrow> e)
              in case get_detail error of
                   Inl ex \<Rightarrow> (Inl ex, w')
                 | Inr d \<Rightarrow> (Inl (Error (or_else d (JStr (js ''HTTP '' @ digits st)))), w')))"

section \<open>services/api.ts: AuthAPI, TodoAPI, AdminAPI\<close>

definition AuthAPI_register ::
  "UserCreate \<Rightarrow> TokenResponse fetched \<Rightarrow> world \<Rightarrow> (exn + TokenResponse) \<times> world" where
  "AuthAPI_register userData outcome w =
     (case apiRequest (js ''/auth/register'')
             \<lparr> ri_method = Some (js ''POST''),
               ri_body = Some (Stringify_UserCreate userData),
               ri_headers = None \<rparr> outcome w of
        (Inl e, w') \<Rightarrow> (Inl e, w')
      | (Inr response, w') \<Rightarrow> (Inr response, setToken (access_token response) w'))"

definition AuthAPI_login ::
  "UserLogin \<Rightarrow> TokenResponse fetched \<Rightarrow> world \<Rightarrow> (exn + TokenResponse) \<times> world" where
  "AuthAPI_login credentials outcome w =
     (case apiRequest (js ''/auth/login'')
             \<lparr> ri_method = Some (js ''POST''),
               ri_body = Some (Stringify_UserLogin credentials),
               ri_headers = None \<rparr> outcome w of
        (Inl e, w') \<Rightarrow> (Inl e, w')
      | (Inr response, w') \<Rightarrow> (Inr response, setToken (access_token response) w'))"

definition no_options :: RequestInit where
  "no_options = \<lparr> ri_method = None, ri_body = None, ri_headers = None \<rparr>"

definition AuthAPI_getCurrentUser :: "User fetched \<Rightarrow> world \<Rightarrow> (exn + User) \<times> world" where
  "AuthAPI_getCurrentUser outcome w = apiRequest (js ''/auth/me'') no_options outcome w"

definition AuthAPI_updateProfile ::
  "ProfileUpdate \<Rightarrow> User fetched \<Rightarrow> world \<Rightarrow> (exn + User) \<times> world" where
  "AuthAPI_updateProfile profileData outcome w =
     apiRequest (js ''/auth/profile'')
       \<lparr> ri_method = Some (js ''PUT''),
         ri_body = Some (Stringify_ProfileUpdate profileData),
         ri_headers = None \<rparr> outcome w"

definition AuthAPI_logout :: "world \<Rightarrow> world" where
  "AuthAPI_logout w = removeToken w"

definition TodoAPI_getTodos ::
  "bool option \<Rightarrow> Todo list fetched \<Rightarrow> world \<Rightarrow> (exn + Todo list) \<times> world" where
  "TodoAPI_getTodos completed outcome w =
     (let query = (case completed of
                     None \<Rightarrow> []
                   | Some c \<Rightarrow> js ''?completed='' @ (if c then js ''true'' else js ''false''))
      in apiRequest (js ''/todos'' @ query) no_options outcome w)"

definition TodoAPI_getTodo :: "number \<Rightarrow> Todo fetched \<Rightarrow> world \<Rightarrow> (exn + Todo) \<times> world" where
  "TodoAPI_getTodo i outcome w =
     apiRequest (js ''/todos/'' @ template_number i) no_options outcome w"

definition TodoAPI_createTodo ::
  "TodoCreate \<Rightarrow> Todo fetched \<Rightarrow> world \<Rightarrow> (exn + Todo) \<times> world" where
  "TodoAPI_createTodo todo outcome w =
     apiRequest (js ''/todos'')
       \<lparr> ri_method = Some (js ''POST''),
         ri_body = Some (Stringify_TodoCreate todo),
         ri_headers = None \<rparr> outcome w"

definition TodoAPI_updateTodo ::
  "number \<Rightarrow> TodoUpdate \<Rightarrow> Todo fetched \<Rightarrow> world \<Rightarrow> (exn + Todo) \<times> world" where
  "TodoAPI_updateTodo i updates outcome w =
     apiRequest (js ''/todos/'' @ template_number i)
       \<lparr> ri_method = Some (js ''PUT''),
         ri_body = Some (Stringify_TodoUpdate updates),
         ri_headers = None \<rparr> outcome w"

text \<open>The functions declared \<open>Promise<void>\<close> await the request and drop its value.\<close>

definition TodoAPI_deleteTodo :: "number \<Rightarrow> unit fetched \<Rightarrow> world \<Rightarrow> (exn + unit) \<times> world" where
  "TodoAPI_deleteTodo i outcome w =
     apiRequest (js ''/todos/'' @ template_number i)
       \<lparr> ri_method = Some (js ''DELETE''), ri_body = None, ri_headers = None \<rparr> outcome w"

definition TodoAPI_getStats :: "json fetched \<Rightarrow> world \<Rightarrow> (exn + json) \<times> world" where
  "TodoAPI_getStats outcome w = apiRequest (js ''/stats'') no_options outcome w"

record AdminStats =
  users_total :: int
  users_admins :: int
  users_active :: int
  todos_total :: int
  todos_completed :: int
  todos_pending :: int
  todos_by_status :: "jsstring \<rightharpoonup> int"

definition AdminAPI_getAllUsers :: "User list fetched \<Rightarrow> world \<Rightarrow> (exn + User list) \<times> world" where
  "AdminAPI_getAllUsers outcome w = apiRequest (js ''/admin/users'') no_options outcome w"

definition AdminAPI_getUser :: "number \<Rightarrow> User fetched \<Rightarrow> world \<Rightarrow> (exn + User) \<times> world" where
  "AdminAPI_getUser userId outcome w =
     apiRequest (js ''/admin/users/'' @ template_number userId) no_options outcome w"

definition AdminAPI_getUserTodos ::
  "number \<Rightarrow> Todo list fetched \<Rightarrow> world \<Rightarrow> (exn + Todo list) \<times> world" where
  "AdminAPI_getUserTodos userId outcome w =
     apiRequest (js ''/admin/users/'' @ template_number userId @ js ''/todos'')
       no_options outcome w"

definition AdminAPI_deleteUser :: "number \<Rightarrow> unit fetched \<Rightarrow> world \<Rightarrow> (exn + unit) \<times> world" where
  "AdminAPI_deleteUser userId outcome w =
     apiRequest (js ''/admin/users/'' @ template_number userId)
       \<lparr> ri_method = Some (js ''DELETE''), ri_body = None, ri_headers = None \<rparr> outcome w"

definition AdminAPI_toggleAdminRole ::
  "number \<Rightarrow> User fetched \<Rightarrow> world \<Rightarrow> (exn + User) \<times> world" where
  "AdminAPI_toggleAdminRole userId outcome w =
     apiRequest (js ''/admin/users/'' @ template_number userId @ js ''/role'')
       \<lparr> ri_method = Some (js ''PUT''), ri_body = None, ri_headers = None \<rparr> outcome w"

definition AdminAPI_getSystemStats ::
  "AdminStats fetched \<Rightarrow> world \<Rightarrow> (exn + AdminStats) \<times> world" where
  "AdminAPI_getSystemStats outcome w = apiRequest (js ''/admin/stats'') no_options outcome w"

section \<open>context/AuthContext.tsx\<close>

text \<open>Source: \<^verbatim>\<open>src/unnamed/part_004\<close>.\<close>

text \<open>The three \<open>useState\<close> cells of \<open>AuthProvider\<close>: \<open>user\<close>, \<open>token\<close>, \<open>loading\<close>.\<close>

record AuthState =
  st_user :: "User option"
  st_token :: "jsstring option"
  st_loading :: bool

definition isAuthenticated :: "AuthState \<Rightarrow> bool" where
  "isAuthenticated st = (st_user st \<noteq> None \<and> truthy_string (st_token st))"

definition isAdmin :: "AuthState \<Rightarrow> bool" where
  "isAdmin st = (case st_user st of None \<Rightarrow> False | Some u \<Rightarrow> user_is_admin u)"

text \<open>\<open>login\<close> and \<open>register\<close> log the failure and throw it again.\<close>

definition AuthProvider_login ::
  "UserLogin \<Rightarrow> TokenResponse fetched \<Rightarrow> AuthState \<times> world \<Rightarrow> (exn + unit) \<times> AuthState \<times> world" where
  "AuthProvider_login credentials outcome sw =
     (case sw of (st, w) \<Rightarrow>
        (case AuthAPI_login credentials outcome w of
           (Inr response, w') \<Rightarrow>
             (Inr (), st\<lparr>st_token := Some (access_token response), st_user := Some (user response)\<rparr>, w')
         | (Inl e, w') \<Rightarrow> (Inl e, st, w')))"

definition AuthProvider_register ::
  "UserCreate \<Rightarrow> TokenResponse fetched \<Rightarrow> AuthState \<times> world \<Rightarrow> (exn + unit) \<times> AuthState \<times> world" where
  "AuthProvider_register userData outcome sw =
     (case sw of (st, w) \<Rightarrow>
        (case AuthAPI_register userData outcome w of
           (Inr response, w') \<Rightarrow>
             (Inr (), st\<lparr>st_token := Some (access_token response), st_user := Some (user response)\<rparr>, w')
         | (Inl e, w') \<Rightarrow> (Inl e, st, w')))"

definition AuthProvider_logout :: "AuthState \<times> world \<Rightarrow> AuthState \<times> world" where
  "AuthProvider_logout sw =
     (case sw of (st, w) \<Rightarrow> (st\<lparr>st_token := None, st_user := None\<rparr>, AuthAPI_logout w))"

definition AuthProvider_refreshUser :: "User fetched \<Rightarrow> AuthState \<times> world \<Rightarrow> AuthState \<times> world" where
  "AuthProvider_refreshUser outcome sw =
     (case sw of (st, w) \<Rightarrow>
        (case AuthAPI_getCurrentUser outcome w of
           (Inr currentUser, w') \<Rightarrow> (st\<lparr>st_user := Some currentUser\<rparr>, w')
         | (Inl e, w') \<Rightarrow> AuthProvider_logout (st, w')))"

definition initAuth :: "User fetched \<Rightarrow> AuthState \<times> world \<Rightarrow> AuthState \<times> world" where
  "initAuth outcome sw =
     (case sw of (st, w) \<Rightarrow>
        (let storedToken = getToken w
         in if truthy_string storedToken then
              (case AuthAPI_getCurrentUser outcome w of
                 (Inr currentUser, w') \<Rightarrow>
                   (st\<lparr>st_token := storedToken, st_user := Some currentUser, st_loading := False\<rparr>, w')
               | (Inl e, w') \<Rightarrow>
                   (st\<lparr>st_token := None, st_loading := False\<rparr>, AuthAPI_logout w'))
            else (st\<lparr>st_loading := False\<rparr>, w)))"

section \<open>App.tsx: the task handlers\<close>

text \<open>Source: \<^verbatim>\<open>src/unnamed/part_001\<close>, lines 104 to 135.\<close>

text \<open>
  White space as \<open>trim\<close> and \<open>parseInt\<close> strip it: the code units of ECMAScript's
  \<open>WhiteSpace\<close> and \<open>LineTerminator\<close>.
\<close>

definition is_whitespace :: "16 word \<Rightarrow> bool" where
  "is_whitespace c \<longleftrightarrow>
     c \<in> {0x0009, 0x000A, 0x000B, 0x000C, 0x000D, 0x0020, 0x00A0, 0x1680,
          0x2028, 0x2029, 0x202F, 0x205F, 0x3000, 0xFEFF}
     \<or> (0x2000 \<le> c \<and> c \<le> 0x200A)"

definition trim :: "jsstring \<Rightarrow> jsstring" where
  "trim s = rev (dropWhile is_whitespace (rev (dropWhile is_whitespace s)))"

text \<open>
  \<open>parseInt(s)\<close> without a radix: leading white space, a sign, \<open>0x\<close> for base 16, then
  the longest run of digits; \<open>NaN\<close> when that run is empty, else the \<open>number\<close> for the
  signed value of the run.
\<close>

definition digit_value :: "16 word \<Rightarrow> nat option" where
  "digit_value c =
     (if 48 \<le> c \<and> c \<le> 57 then Some (unat c - 48)
      else if 97 \<le> c \<and> c \<le> 122 then Some (unat c - 87)
      else if 65 \<le> c \<and> c \<le> 90 then Some (unat c - 55)
      else None)"

definition is_digit :: "nat \<Rightarrow> 16 word \<Rightarrow> bool" where
  "is_digit R c = (case digit_value c of None \<Rightarrow> False | Some v \<Rightarrow> v < R)"

definition parseInt :: "jsstring \<Rightarrow> number" where
  "parseInt inputString =
     (let S = dropWhile is_whitespace inputString;
          sign = (if take 1 S = js ''-'' then - 1 else (1::int));
          S1 = (if take 1 S = js ''+'' \<or> take 1 S = js ''-'' then drop 1 S else S);
          hex = (take 2 S1 = js ''0x'' \<or> take 2 S1 = js ''0X'');
          R = (if hex then 16 else 10);
          S2 = (if hex then drop 2 S1 else S1);
          Z = takeWhile (is_digit R) S2
      in if Z = [] then NaN
         else to_number (sign * int (foldl (\<lambda>acc c. acc * R
                      + (case digit_value c of None \<Rightarrow> 0 | Some v \<Rightarrow> v)) 0 Z)))"

text \<open>
  The state of \<open>AppContent\<close> the handlers touch: the task list, and the \<open>alert\<close> boxes
  shown, each as its prefix and the error whose \<open>message || 'Unknown error'\<close> follows it.
\<close>

record AppState =
  tasks :: "Task list"
  alerts :: "(jsstring \<times> exn) list"

text \<open>
  Each render of \<open>AppContent\<close> creates the three handlers anew, and each closes over the
  \<open>tasks\<close> of that render: \<open>captured\<close>. A handler sends its request when it is called
  and calls \<open>setTasks\<close> when the answer arrives; it computes the new list from
  \<open>captured\<close>, not from the state at that moment, and \<open>setTasks\<close> replaces whatever list
  the state then holds. The state argument is the state when the answer arrives.
\<close>

definition addTask ::
  "Task list \<Rightarrow> 'a TaskData_scheme \<Rightarrow> Todo fetched \<Rightarrow> AppState \<times> world \<Rightarrow> AppState \<times> world" where
  "addTask captured task outcome sw =
     (case sw of (st, w) \<Rightarrow>
        (let todoCreate = taskToTodoCreate task
         in case TodoAPI_createTodo todoCreate outcome w of
              (Inr newTodo, w') \<Rightarrow> (st\<lparr>tasks := captured @ [todoToTask newTodo]\<rparr>, w')
            | (Inl err, w') \<Rightarrow>
                (st\<lparr>alerts := alerts st @ [(js ''Failed to create task: '', err)]\<rparr>, w')))"

definition updateTask ::
  "Task list \<Rightarrow> jsstring \<Rightarrow> PartialTask \<Rightarrow> Todo fetched \<Rightarrow> AppState \<times> world
     \<Rightarrow> AppState \<times> world" where
  "updateTask captured ident updates outcome sw =
     (case sw of (st, w) \<Rightarrow>
        (let todoUpdate = taskToTodoUpdate updates
         in case TodoAPI_updateTodo (parseInt ident) todoUpdate outcome w of
              (Inr updatedTodo, w') \<Rightarrow>
                (st\<lparr>tasks := map (\<lambda>task. if task_id task = ident then todoToTask updatedTodo
                                          else task) captured\<rparr>, w')
            | (Inl err, w') \<Rightarrow>
                (st\<lparr>alerts := alerts st @ [(js ''Failed to update task: '', err)]\<rparr>, w')))"

definition deleteTask ::
  "Task list \<Rightarrow> jsstring \<Rightarrow> unit fetched \<Rightarrow> AppState \<times> world \<Rightarrow> AppState \<times> world" where
  "deleteTask captured ident outcome sw =
     (case sw of (st, w) \<Rightarrow>
        (case TodoAPI_deleteTodo (parseInt ident) outcome w of
           (Inr u, w') \<Rightarrow> (st\<lparr>tasks := filter (\<lambda>task. task_id task \<noteq> ident) captured\<rparr>, w')
         | (Inl err, w') \<Rightarrow>
             (st\<lparr>alerts := alerts st @ [(js ''Failed to delete task: '', err)]\<rparr>, w')))"

section \<open>components/TaskFormModal.tsx\<close>

text \<open>
  Source: the component \<open>TaskFormModal\<close>, whose text follows the badge in
  \<^verbatim>\<open>src/frontend/src/components/StatusBadge.tsx\<close>, lines 104 to 137.
\<close>

text \<open>
  \<open>a < b\<close> on two strings: the first differing code unit decides, a proper prefix is
  smaller. \<open>a > b\<close> is \<open>b < a\<close>, and \<open>a <= b\<close> is \<open>!(b < a)\<close>.
\<close>

fun js_lt :: "jsstring \<Rightarrow> jsstring \<Rightarrow> bool" where
  "js_lt [] [] = False"
| "js_lt [] (y # ys) = True"
| "js_lt (x # xs) [] = False"
| "js_lt (x # xs) (y # ys) = (x < y \<or> (x = y \<and> js_lt xs ys))"

definition js_gt :: "jsstring \<Rightarrow> jsstring \<Rightarrow> bool" where
  "js_gt a b = js_lt b a"

definition js_le :: "jsstring \<Rightarrow> jsstring \<Rightarrow> bool" where
  "js_le a b = (\<not> js_lt b a)"

text \<open>
  \<open>newErrors\<close> is an object filled by assignment: an association list in insertion
  order, where assigning to a key already there replaces its value in place.
\<close>

definition validate :: "'a TaskData_scheme \<Rightarrow> (jsstring \<times> jsstring) list \<times> bool" where
  "validate formData =
     (let e0 = [];
          e1 = (if trim (title formData) = []
                then AList.update (js ''title'') (js ''Title is required'') e0 else e0);
          e2 = (if trim (category formData) = []
                then AList.update (js ''category'') (js ''Category is required'') e1 else e1);
          e3 = (if startDate formData = []
                then AList.update (js ''startDate'') (js ''Start date is required'') e2 else e2);
          e4 = (if endDate formData = []
                then AList.update (js ''endDate'') (js ''End date is required'') e3 else e3);
          newErrors =
               (if startDate formData \<noteq> [] \<and> endDate formData \<noteq> []
                   \<and> js_gt (startDate formData) (endDate formData)
                then AList.update (js ''endDate'') (js ''End date must be after start date'') e4
                else e4)
      in (newErrors, length (map fst newErrors) = 0))"

text \<open>
  \<open>handleSubmit\<close>: the errors now shown, and the argument of the call of \<open>onSave\<close>,
  \<open>None\<close> when \<open>onSave\<close> is not called.
\<close>

definition handleSubmit ::
  "'a TaskData_scheme \<Rightarrow> (jsstring \<times> jsstring) list \<times> 'a TaskData_scheme option" where
  "handleSubmit formData =
     (case validate formData of (errors, ok) \<Rightarrow> (errors, if ok then Some formData else None))"

section \<open>components/HomePage.tsx\<close>

text \<open>Source: \<^verbatim>\<open>src/frontend/src/components/HomePage.tsx\<close>, lines 9 to 18.\<close>

text \<open>
  The arithmetic is that of doubles, \<open>double_div\<close>, \<open>double_mul\<close> and \<open>Math_round\<close>
  above.
\<close>

record StatusCounts =
  sc_todo :: nat
  sc_in_progress :: nat
  sc_done :: nat
  sc_blocked :: nat

definition statusCounts :: "Task list \<Rightarrow> StatusCounts" where
  "statusCounts ts =
     \<lparr> sc_todo = length (filter (\<lambda>t. status t = js ''todo'') ts),
       sc_in_progress = length (filter (\<lambda>t. status t = js ''in-progress'') ts),
       sc_done = length (filter (\<lambda>t. status t = js ''done'') ts),
       sc_blocked = length (filter (\<lambda>t. status t = js ''blocked'') ts) \<rparr>"

definition totalTasks :: "Task list \<Rightarrow> nat" where
  "totalTasks ts = length ts"

definition completionRate :: "Task list \<Rightarrow> int" where
  "completionRate ts =
     (if totalTasks ts > 0
      then Math_round (double_mul (double_div (of_nat (sc_done (statusCounts ts)))
                                              (of_nat (totalTasks ts))) 100)
      else 0)"

section \<open>components/AdminPage.tsx\<close>

text \<open>Source: \<^verbatim>\<open>src/frontend/src/components/AdminPage.tsx\<close>.\<close>

text \<open>
  The error banner shows \<open>err.message || fallback\<close>: the error and the fallback are
  kept, \<open>No_error\<close> is the empty string.
\<close>

datatype shown_error = No_error | Message_or exn jsstring

record AdminState =
  users :: "User list"
  stats :: "AdminStats option"
  isLoading :: bool
  error :: shown_error
  deletingUserId :: "int option"

text \<open>
  \<open>loadData\<close> starts both requests, then awaits \<open>Promise.all\<close>, which rejects with
  whichever rejection comes first: \<open>users_first\<close> says that, when both fail, the users
  request failed first.
\<close>

type_synonym load_outcome = "User list fetched \<times> AdminStats fetched \<times> bool"

definition loadData :: "load_outcome \<Rightarrow> AdminState \<times> world \<Rightarrow> AdminState \<times> world" where
  "loadData outcome sw =
     (case (outcome, sw) of ((o_users, o_stats, users_first), (st, w)) \<Rightarrow>
        (let st1 = st\<lparr>isLoading := True, error := No_error\<rparr>;
             (r_users, w1) = AdminAPI_getAllUsers o_users w;
             (r_stats, w2) = AdminAPI_getSystemStats o_stats w1;
             failed = (\<lambda>err. st1\<lparr>error := Message_or err (js ''Failed to load admin data''),
                                  isLoading := False\<rparr>)
         in case (r_users, r_stats) of
              (Inr usersData, Inr statsData) \<Rightarrow>
                (st1\<lparr>users := usersData, stats := Some statsData, isLoading := False\<rparr>, w2)
            | (Inl e1, Inr statsData) \<Rightarrow> (failed e1, w2)
            | (Inr usersData, Inl e2) \<Rightarrow> (failed e2, w2)
            | (Inl e1, Inl e2) \<Rightarrow> (failed (if users_first then e1 else e2), w2)))"

definition handleToggleAdmin ::
  "int \<Rightarrow> User fetched \<Rightarrow> load_outcome \<Rightarrow> AdminState \<times> world \<Rightarrow> AdminState \<times> world" where
  "handleToggleAdmin userId o_toggle o_load sw =
     (case sw of (st, w) \<Rightarrow>
        (case AdminAPI_toggleAdminRole (Num userId) o_toggle w of
           (Inr u, w') \<Rightarrow> loadData o_load (st, w')
         | (Inl err, w') \<Rightarrow>
             (st\<lparr>error := Message_or err (js ''Failed to update user role'')\<rparr>, w')))"

text \<open>
  \<open>handleDeleteUser\<close> up to its \<open>await\<close>; \<open>confirmed\<close> is the answer to
  \<open>window.confirm\<close>. The result is the state the page shows while the \<open>DELETE\<close>
  request is in flight, \<open>None\<close> when the handler has returned without sending one.
\<close>

definition awaiting_delete :: "int \<Rightarrow> bool \<Rightarrow> AdminState \<Rightarrow> AdminState option" where
  "awaiting_delete userId confirmed st =
     (case find (\<lambda>u. user_id u = userId) (users st) of
        None \<Rightarrow> None
      | Some u \<Rightarrow> if \<not> confirmed then None else Some (st\<lparr>deletingUserId := Some userId\<rparr>))"

text \<open>The whole handler: the request, then the reload or the error, then \<open>finally\<close>.\<close>

definition handleDeleteUser ::
  "int \<Rightarrow> bool \<Rightarrow> unit fetched \<Rightarrow> load_outcome \<Rightarrow> AdminState \<times> world \<Rightarrow> AdminState \<times> world" where
  "handleDeleteUser userId confirmed o_delete o_load sw =
     (case sw of (st, w) \<Rightarrow>
        (case awaiting_delete userId confirmed st of
           None \<Rightarrow> (st, w)
         | Some st1 \<Rightarrow>
             (let (st2, w2) =
                    (case AdminAPI_deleteUser (Num userId) o_delete w of
                       (Inr x, w') \<Rightarrow> loadData o_load (st1, w')
                     | (Inl err, w') \<Rightarrow>
                         (st1\<lparr>error := Message_or err (js ''Failed to delete user'')\<rparr>, w'))
              in (st2\<lparr>deletingUserId := None\<rparr>, w2))))"

text \<open>
  One table row, as far as its two buttons go: the user id each \<open>onClick\<close> passes on,
  the \<open>disabled\<close> attribute, the tooltip, and the caption.
\<close>

record UserRow =
  row_key :: int
  row_isCurrentUser :: bool
  toggle_onClick :: int
  toggle_disabled :: bool
  toggle_title :: jsstring
  toggle_caption :: jsstring
  delete_onClick :: int
  delete_disabled :: bool
  delete_title :: jsstring
  delete_spinner :: bool

definition render_row :: "int \<Rightarrow> int option \<Rightarrow> User \<Rightarrow> UserRow" where
  "render_row currentUserId deleting u =
     (let isCurrentUser = (user_id u = currentUserId)
      in \<lparr> row_key = user_id u,
           row_isCurrentUser = isCurrentUser,
           toggle_onClick = user_id u,
           toggle_disabled = isCurrentUser,
           toggle_title = (if isCurrentUser then js ''Can't modify your own role'' else []),
           toggle_caption = (if user_is_admin u then js ''Remove Admin'' else js ''Make Admin''),
           delete_onClick = user_id u,
           delete_disabled = (isCurrentUser \<or> deleting = Some (user_id u)),
           delete_title = (if isCurrentUser then js ''Can't delete your own account''
                           else js ''Delete user''),
           delete_spinner = (deleting = Some (user_id u)) \<rparr>)"

text \<open>While \<open>isLoading\<close> the component returns the spinner and no table.\<close>

definition AdminPage :: "int \<Rightarrow> AdminState \<Rightarrow> UserRow list" where
  "AdminPage currentUserId st =
     (if isLoading st then []
      else map (render_row currentUserId (deletingUserId st)) (users st))"

text \<open>A click on a button: a disabled button gets no click event, its handler does not run.\<close>

definition click_toggle ::
  "UserRow \<Rightarrow> User fetched \<Rightarrow> load_outcome \<Rightarrow> AdminState \<times> world \<Rightarrow> AdminState \<times> world" where
  "click_toggle row o_toggle o_load sw =
     (if toggle_disabled row then sw
      else handleToggleAdmin (toggle_onClick row) o_toggle o_load sw)"

definition click_delete ::
  "UserRow \<Rightarrow> bool \<Rightarrow> unit fetched \<Rightarrow> load_outcome \<Rightarrow> AdminState \<times> world
     \<Rightarrow> AdminState \<times> world" where
  "click_delete row confirmed o_delete o_load sw =
     (if delete_disabled row then sw
      else handleDeleteUser (delete_onClick row) confirmed o_delete o_load sw)"

text \<open>
  The two requests the server refuses when their target is the requester:
  \<open>DELETE /admin/users/{id}\<close> and \<open>PUT /admin/users/{id}/role\<close>.
\<close>

definition targets_user :: "int \<Rightarrow> request \<Rightarrow> bool" where
  "targets_user uid r \<longleftrightarrow>
     (req_method r = Some (js ''DELETE'')
        \<and> req_url r = API_BASE_URL @ js ''/admin/users/'' @ toString uid)
     \<or> (req_method r = Some (js ''PUT'')
        \<and> req_url r = API_BASE_URL @ js ''/admin/users/'' @ toString uid @ js ''/role'')"

section \<open>The API functions as data\<close>

text \<open>
  Every exported function of the three API classes that makes a request, with its
  arguments and what its \<open>fetch\<close> comes back with; \<open>perform\<close> runs one and keeps the
  browser state it leaves.
\<close>

datatype api_call =
    Register UserCreate "TokenResponse fetched"
  | Login UserLogin "TokenResponse fetched"
  | GetCurrentUser "User fetched"
  | UpdateProfile ProfileUpdate "User fetched"
  | GetTodos "bool option" "Todo list fetched"
  | GetTodo number "Todo fetched"
  | CreateTodo TodoCreate "Todo fetched"
  | UpdateTodo number TodoUpdate "Todo fetched"
  | DeleteTodo number "unit fetched"
  | GetStats "json fetched"
  | GetAllUsers "User list fetched"
  | GetUser number "User fetched"
  | GetUserTodos number "Todo list fetched"
  | DeleteUser number "unit fetched"
  | ToggleAdminRole number "User fetched"
  | GetSystemStats "AdminStats fetched"

fun perform :: "api_call \<Rightarrow> world \<Rightarrow> world" where
  "perform (Register userData out) w = snd (AuthAPI_register userData out w)"
| "perform (Login credentials out) w = snd (AuthAPI_login credentials out w)"
| "perform (GetCurrentUser out) w = snd (AuthAPI_getCurrentUser out w)"
| "perform (UpdateProfile profileData out) w = snd (AuthAPI_updateProfile profileData out w)"
| "perform (GetTodos completed out) w = snd (TodoAPI_getTodos completed out w)"
| "perform (GetTodo i out) w = snd (TodoAPI_getTodo i out w)"
| "perform (CreateTodo todo out) w = snd (TodoAPI_createTodo todo out w)"
| "perform (UpdateTodo i updates out) w = snd (TodoAPI_updateTodo i updates out w)"
| "perform (DeleteTodo i out) w = snd (TodoAPI_deleteTodo i out w)"
| "perform (GetStats out) w = snd (TodoAPI_getStats out w)"
| "perform (GetAllUsers out) w = snd (AdminAPI_getAllUsers out w)"
| "perform (GetUser userId out) w = snd (AdminAPI_getUser userId out w)"
| "perform (GetUserTodos userId out) w = snd (AdminAPI_getUserTodos userId out w)"
| "perform (DeleteUser userId out) w = snd (AdminAPI_deleteUser userId out w)"
| "perform (ToggleAdminRole userId out) w = snd (AdminAPI_toggleAdminRole userId out w)"
| "perform (GetSystemStats out) w = snd (AdminAPI_getSystemStats out w)"

text \<open>The \<open>Authorization\<close> header \<open>apiRequest\<close> sets for a stored token, if it sets one.\<close>

definition bearer_of :: "jsstring option \<Rightarrow> jsstring option" where
  "bearer_of token =
     (case token of None \<Rightarrow> None
      | Some t \<Rightarrow> if t = [] then None else Some (js ''Bearer '' @ t))"

section \<open>The completion rate as the specification words it\<close>

text \<open>
  The rate as C7 words it, \<open>round(100 * doneCount / total)\<close> over the rationals, with
  \<open>round\<close> taking a tie up as \<open>Math.round\<close> does, and \<open>0\<close> for the empty list.
\<close>

definition claimed_completionRate :: "Task list \<Rightarrow> int" where
  "claimed_completionRate ts =
     (if ts = [] then 0
      else round (100 * rat_of_nat (sc_done (statusCounts ts)) / rat_of_nat (totalTasks ts)))"

text \<open>Whether \<open>100 * doneCount / total\<close> lies exactly half-way between two integers.\<close>

definition rate_is_tie :: "Task list \<Rightarrow> bool" where
  "rate_is_tie ts \<longleftrightarrow>
     (2 * totalTasks ts) dvd (200 * sc_done (statusCounts ts) + totalTasks ts)"

section \<open>Example data\<close>

definition example_user :: User where
  "example_user = \<lparr> user_id = 7, user_username = js ''alice'', user_email = js ''alice@example.org'',
     user_is_admin = False, user_is_active = True, user_email_verified = False,
     user_profile_picture = None, user_created_at = js ''2024-05-01T10:00:00'' \<rparr>"

definition example_todo :: Todo where
  "example_todo = \<lparr> todo_id = 12, todo_title = js ''Write report'', todo_description = None,
     todo_completed = False, todo_status = js ''todo'', todo_priority = js ''high'',
     todo_start_date = js ''2024-05-01'', todo_end_date = js ''2024-05-03'',
     todo_category = js ''Work'', todo_created_at = js ''2024-05-01T10:00:00'', todo_user_id = 7 \<rparr>"

definition example_world :: world where
  "example_world =
     \<lparr> localStorage = [js ''auth_token'' \<mapsto> js ''tok-1'', js ''theme'' \<mapsto> js ''dark''],
       sent = [] \<rparr>"

definition empty_token_world :: world where
  "empty_token_world = \<lparr> localStorage = [js ''auth_token'' \<mapsto> []], sent = [] \<rparr>"

definition example_token_response :: TokenResponse where
  "example_token_response =
     \<lparr> access_token = js ''tok-2'', token_type = js ''bearer'', user = example_user \<rparr>"

definition example_user_create :: UserCreate where
  "example_user_create =
     \<lparr> uc_username = js ''alice'', uc_email = js ''alice@example.org'', uc_password = js ''s3cret'' \<rparr>"

definition logged_out :: AuthState where
  "logged_out = \<lparr> st_user = None, st_token = None, st_loading = False \<rparr>"

definition example_form :: TaskData where
  "example_form =
     \<lparr> title = js '' Write report '', description = [], status = js ''todo'',
       priority = js ''medium'', startDate = js ''2024-05-01'', endDate = js ''2024-05-01'',
       category = js ''Work'' \<rparr>"

definition example_tasks :: "Task list" where
  "example_tasks =
     [todoToTask example_todo,
      todoToTask (example_todo\<lparr>todo_id := 13, todo_title := js ''Book flights'',
                                todo_status := js ''done''\<rparr>),
      todoToTask (example_todo\<lparr>todo_id := 14, todo_title := js ''Call bank'',
                                todo_status := js ''blocked''\<rparr>)]"


definition alice :: User where
  "alice = example_user\<lparr>user_is_admin := True\<rparr>"

definition bob :: User where
  "bob = example_user\<lparr>user_id := 8, user_username := js ''bob'',
                       user_email := js ''bob@example.org''\<rparr>"

definition example_admin :: AdminState where
  "example_admin =
     \<lparr> users = [alice, bob], stats = None, isLoading = False, error = No_error,
       deletingUserId = None \<rparr>"

definition done_task :: Task where
  "done_task = todoToTask (example_todo\<lparr>todo_status := js ''done''\<rparr>)"

definition forty_tasks :: "Task list" where
  "forty_tasks = replicate 23 done_task @ replicate 17 (todoToTask example_todo)"

definition empty_token_response :: TokenResponse where
  "empty_token_response = example_token_response\<lparr>access_token := []\<rparr>"




section \<open>Verified properties\<close>

text \<open>
  C8. On each of the four strings of \<open>TaskStatus\<close> the \<open>switch\<close> of
  \<open>getStatusConfig\<close> returns a configuration, so the badge reads \<open>config.icon\<close> and
  \<open>config.label\<close> of a defined value and renders; the four labels are \<open>To Do\<close>,
  \<open>In Progress\<close>, \<open>Done\<close>, \<open>Blocked\<close>, pairwise distinct.
\<close>

theorem getStatusConfig_covers_TaskStatus:
  "(\<forall>s \<in> set TaskStatus. \<exists>c. getStatusConfig s = Some c
        \<and> StatusBadge s = Inr (js ''inline-flex items-center gap-2 px-3 py-1 rounded-full '' @ className c,
                              icon c, label c))
   \<and> map (\<lambda>s. map_option label (getStatusConfig s)) TaskStatus
        = [Some (js ''To Do''), Some (js ''In Progress''), Some (js ''Done''), Some (js ''Blocked'')]
   \<and> distinct (map (\<lambda>s. map_option label (getStatusConfig s)) TaskStatus)"
  by (simp add: TaskStatus_def getStatusConfig_def StatusBadge_def js_def)

text \<open>The status \<open>blocked\<close> is one of the four, and its label is \<open>Blocked\<close>.\<close>

theorem getStatusConfig_covers_TaskStatus_witness:
  "js ''blocked'' \<in> set TaskStatus
   \<and> (\<exists>c. getStatusConfig (js ''blocked'') = Some c \<and> label c = js ''Blocked'')"
  using getStatusConfig_covers_TaskStatus
  by (simp add: TaskStatus_def getStatusConfig_def js_def)

text \<open>
  C9. \<open>taskToTodoCreate (todoToTask t)\<close> carries the title, status, priority, start
  date, end date and category of the backend record \<open>t\<close>; its description is that of
  \<open>t\<close> when \<open>t\<close> has one, and the empty string when \<open>t\<close>'s is \<open>null\<close>.
\<close>

theorem todo_task_roundtrip:
  "tc_title (taskToTodoCreate (todoToTask t)) = todo_title t
   \<and> tc_status (taskToTodoCreate (todoToTask t)) = Some (todo_status t)
   \<and> tc_priority (taskToTodoCreate (todoToTask t)) = Some (todo_priority t)
   \<and> tc_start_date (taskToTodoCreate (todoToTask t)) = Some (todo_start_date t)
   \<and> tc_end_date (taskToTodoCreate (todoToTask t)) = Some (todo_end_date t)
   \<and> tc_category (taskToTodoCreate (todoToTask t)) = Some (todo_category t)
   \<and> (\<forall>d. todo_description t = Some d \<longrightarrow>
          tc_description (taskToTodoCreate (todoToTask t)) = Some d)
   \<and> (todo_description t = None \<longrightarrow>
          tc_description (taskToTodoCreate (todoToTask t)) = Some [])"
  by (simp add: taskToTodoCreate_def todoToTask_def or_empty_def)

text \<open>A todo without description comes back with \<open>''\<close>, one with \<open>weekly\<close> keeps it.\<close>

theorem todo_task_roundtrip_witness:
  "todo_description example_todo = None
   \<and> tc_description (taskToTodoCreate (todoToTask example_todo)) = Some []
   \<and> todo_description (example_todo\<lparr>todo_description := Some (js ''weekly'')\<rparr>) = Some (js ''weekly'')
   \<and> tc_description (taskToTodoCreate (todoToTask (example_todo\<lparr>todo_description := Some (js ''weekly'')\<rparr>)))
        = Some (js ''weekly'')"
  using todo_task_roundtrip [of example_todo]
    todo_task_roundtrip [of "example_todo\<lparr>todo_description := Some (js ''weekly'')\<rparr>"]
  by (simp add: example_todo_def)

text \<open>
  C5. \<open>AuthAPI.logout\<close> removes the key \<open>auth_token\<close> from \<open>localStorage\<close> and does
  nothing else: every other key keeps its value and no \<open>fetch\<close> is made.
  \<open>AuthProvider.logout\<close> does that and sets \<open>token\<close> and \<open>user\<close> to \<open>null\<close>, again
  without a request. The server is told nothing, so it cannot have revoked the token.
\<close>

theorem logout_is_local:
  "AuthAPI_logout w = w\<lparr>localStorage := (localStorage w)(js ''auth_token'' := None)\<rparr>
   \<and> sent (AuthAPI_logout w) = sent w
   \<and> getToken (AuthAPI_logout w) = None
   \<and> (\<forall>k. k \<noteq> js ''auth_token'' \<longrightarrow> localStorage (AuthAPI_logout w) k = localStorage w k)
   \<and> fst (AuthProvider_logout (st, w)) = st\<lparr>st_token := None, st_user := None\<rparr>
   \<and> snd (AuthProvider_logout (st, w)) = AuthAPI_logout w
   \<and> sent (snd (AuthProvider_logout (st, w))) = sent w"
  by (simp add: AuthAPI_logout_def removeToken_def getToken_def AuthProvider_logout_def)

text \<open>
  With a token and a \<open>theme\<close> stored, logging out leaves \<open>theme\<close> alone, and the log of
  requests stays empty.
\<close>

theorem logout_is_local_witness:
  "js ''theme'' \<noteq> js ''auth_token''
   \<and> localStorage (AuthAPI_logout example_world) (js ''theme'') = Some (js ''dark'')
   \<and> getToken example_world = Some (js ''tok-1'')
   \<and> getToken (AuthAPI_logout example_world) = None
   \<and> sent (snd (AuthProvider_logout (\<lparr>st_user = Some example_user, st_token = Some (js ''tok-1''),
                                         st_loading = False\<rparr>, example_world))) = []"
  using logout_is_local [of example_world
      "\<lparr>st_user = Some example_user, st_token = Some (js ''tok-1''), st_loading = False\<rparr>"]
  by (simp add: example_world_def getToken_def js_def)

subsection \<open>The request helper\<close>

text \<open>Whatever comes back, \<open>apiRequest\<close> adds this one request to the log.\<close>

lemma sent_apiRequest:
  "sent (snd (apiRequest endpoint options outcome w)) =
     sent w @ [\<lparr> req_url = API_BASE_URL @ endpoint,
                  req_method = ri_method options,
                  req_body = ri_body options,
                  req_headers =
                    (let headers0 = [js ''Content-Type'' \<mapsto> js ''application/json'']
                           ++ (case ri_headers options of None \<Rightarrow> Map.empty | Some h \<Rightarrow> h)
                     in case getToken w of
                          None \<Rightarrow> headers0
                        | Some t \<Rightarrow>
                            if t \<noteq> [] then headers0(js ''Authorization'' \<mapsto> js ''Bearer '' @ t)
                            else headers0) \<rparr>]"
  by (simp add: apiRequest_def Let_def split: fetched.splits option.splits sum.splits)

lemma localStorage_apiRequest:
  "localStorage (snd (apiRequest endpoint options outcome w)) = localStorage w"
  by (simp add: apiRequest_def Let_def split: fetched.splits option.splits sum.splits)

lemma authorization_apiRequest:
  "\<exists>r. sent (snd (apiRequest endpoint options outcome w)) = sent w @ [r]
     \<and> req_url r = API_BASE_URL @ endpoint
     \<and> req_headers r (js ''Authorization'') =
         (if bearer_of (getToken w) \<noteq> None then bearer_of (getToken w)
          else (case ri_headers options of None \<Rightarrow> None | Some h \<Rightarrow> h (js ''Authorization'')))"
  unfolding sent_apiRequest
  by (auto simp: Let_def bearer_of_def map_add_def js_def split: option.splits)

lemma authorization_no_headers:
  "ri_headers options = None \<Longrightarrow>
   \<exists>r. sent (snd (apiRequest endpoint options outcome w)) = sent w @ [r]
     \<and> req_headers r (js ''Authorization'') = bearer_of (getToken w)"
  using authorization_apiRequest [of endpoint options outcome w]
  by (auto split: if_splits)

lemma sent_setToken [simp]: "sent (setToken t w) = sent w"
  by (simp add: setToken_def)

lemma sent_register:
  "sent (snd (AuthAPI_register userData out w)) =
   sent (snd (apiRequest (js ''/auth/register'')
             \<lparr> ri_method = Some (js ''POST''),
               ri_body = Some (Stringify_UserCreate userData),
               ri_headers = None \<rparr> out w))"
  by (simp add: AuthAPI_register_def split: prod.splits sum.splits)

lemma sent_login:
  "sent (snd (AuthAPI_login credentials out w)) =
   sent (snd (apiRequest (js ''/auth/login'')
             \<lparr> ri_method = Some (js ''POST''),
               ri_body = Some (Stringify_UserLogin credentials),
               ri_headers = None \<rparr> out w))"
  by (simp add: AuthAPI_login_def split: prod.splits sum.splits)

lemma perform_authorization:
  "\<exists>r. sent (perform call w) = sent w @ [r]
      \<and> req_headers r (js ''Authorization'') = bearer_of (getToken w)"
proof (cases call)
  case (Register userData out)
  then show ?thesis
    by (simp add: sent_register authorization_no_headers)
next
  case (Login credentials out)
  then show ?thesis
    by (simp add: sent_login authorization_no_headers)
qed (simp_all add: authorization_no_headers no_options_def
      AuthAPI_getCurrentUser_def AuthAPI_updateProfile_def TodoAPI_getTodos_def
      TodoAPI_getTodo_def TodoAPI_createTodo_def TodoAPI_updateTodo_def TodoAPI_deleteTodo_def
      TodoAPI_getStats_def AdminAPI_getAllUsers_def AdminAPI_getUser_def
      AdminAPI_getUserTodos_def AdminAPI_deleteUser_def AdminAPI_toggleAdminRole_def
      AdminAPI_getSystemStats_def Let_def)

text \<open>
  C3, amended. Every function of \<open>AuthAPI\<close>, \<open>TodoAPI\<close> and \<open>AdminAPI\<close> that calls
  \<open>apiRequest\<close> sends exactly one request. If \<open>getToken()\<close> returns a non-empty token
  \<open>t\<close>, that request carries \<open>Authorization: Bearer t\<close>; if it returns \<open>null\<close> or the
  empty string, the request has no \<open>Authorization\<close> header. The same holds of
  \<open>apiRequest\<close> itself, for any endpoint: a non-empty token always gives
  \<open>Bearer t\<close>, and without one, options that bring no headers of their own give no
  \<open>Authorization\<close> header.
\<close>

theorem authorization_header:
  "(\<exists>r. sent (perform call w) = sent w @ [r]
       \<and> req_headers r (js ''Authorization'') = bearer_of (getToken w))
   \<and> (\<forall>t. getToken w = Some t \<and> t \<noteq> [] \<longrightarrow>
         req_headers (last (sent (perform call w))) (js ''Authorization'') = Some (js ''Bearer '' @ t))
   \<and> (getToken w = None \<or> getToken w = Some [] \<longrightarrow>
         req_headers (last (sent (perform call w))) (js ''Authorization'') = None)
   \<and> (\<forall>t. getToken w = Some t \<and> t \<noteq> [] \<longrightarrow>
         req_headers (last (sent (snd (apiRequest endpoint options outcome w))))
           (js ''Authorization'') = Some (js ''Bearer '' @ t))
   \<and> ((getToken w = None \<or> getToken w = Some []) \<and> ri_headers options = None \<longrightarrow>
         req_headers (last (sent (snd (apiRequest endpoint options outcome w))))
           (js ''Authorization'') = None)"
  using perform_authorization [of call w] authorization_apiRequest [of endpoint options outcome w]
  by (auto simp: bearer_of_def)

text \<open>
  C3 as stated fails for the token \<open>''\<close>: \<open>getToken()\<close> returns it, a string and not
  \<open>null\<close>, but \<open>if (token)\<close> is false and the request to \<open>/auth/me\<close> goes out without
  the header \<open>Authorization: Bearer \<close>.
\<close>

theorem authorization_header_counterexample:
  "getToken empty_token_world = Some []
   \<and> length (sent (perform (GetCurrentUser Rejected) empty_token_world)) = 1
   \<and> req_headers (last (sent (perform (GetCurrentUser Rejected) empty_token_world)))
        (js ''Authorization'') = None
   \<and> req_headers (last (sent (perform (GetCurrentUser Rejected) empty_token_world)))
        (js ''Authorization'') \<noteq> Some (js ''Bearer '' @ [])"
  by (simp add: empty_token_world_def getToken_def AuthAPI_getCurrentUser_def no_options_def
      sent_apiRequest js_def)

text \<open>
  With \<open>tok-1\<close> stored, listing todos sends \<open>Bearer tok-1\<close>; with the token removed,
  deleting user 3 sends no \<open>Authorization\<close> header.
\<close>

theorem authorization_header_witness:
  "getToken example_world = Some (js ''tok-1'') \<and> js ''tok-1'' \<noteq> []
   \<and> req_headers (last (sent (perform (GetTodos None Rejected) example_world))) (js ''Authorization'')
       = Some (js ''Bearer tok-1'')
   \<and> getToken (removeToken example_world) = None
   \<and> req_headers (last (sent (perform (DeleteUser (Num 3) Rejected) (removeToken example_world))))
        (js ''Authorization'') = None"
proof -
  have tok: "getToken example_world = Some (js ''tok-1'')" "js ''tok-1'' \<noteq> []"
    by (simp_all add: example_world_def getToken_def js_def)
  have none: "getToken (removeToken example_world) = None"
    by (simp add: getToken_def removeToken_def)
  have "req_headers (last (sent (perform (GetTodos None Rejected) example_world)))
      (js ''Authorization'') = Some (js ''Bearer '' @ js ''tok-1'')"
    using authorization_header [of "GetTodos None Rejected" example_world,
        THEN conjunct2, THEN conjunct1, rule_format, of "js ''tok-1''"] tok
    by blast
  then have 1: "req_headers (last (sent (perform (GetTodos None Rejected) example_world)))
      (js ''Authorization'') = Some (js ''Bearer tok-1'')"
    by (simp add: js_def)
  have 2: "req_headers (last (sent (perform (DeleteUser (Num 3) Rejected)
      (removeToken example_world)))) (js ''Authorization'') = None"
    using authorization_header [of "DeleteUser (Num 3) Rejected" "removeToken example_world",
        THEN conjunct2, THEN conjunct2, THEN conjunct1] none
    by blast
  from tok none 1 2 show ?thesis by blast
qed

text \<open>What \<open>apiRequest\<close> returns or throws, by what the \<open>fetch\<close> came back with.\<close>

lemma result_apiRequest:
  "fst (apiRequest endpoint options outcome w) =
     (case outcome of
        Rejected \<Rightarrow> Inl FetchRejected
      | Ok_response b \<Rightarrow> (case b of None \<Rightarrow> Inl SyntaxError | Some v \<Rightarrow> Inr v)
      | Error_response st stText b \<Rightarrow>
          (case get_detail (case b of None \<Rightarrow> JObj [(js ''detail'', JStr stText)] | Some e \<Rightarrow> e) of
             Inl ex \<Rightarrow> Inl ex
           | Inr d \<Rightarrow> Inl (Error (or_else d (JStr (js ''HTTP '' @ digits st))))))"
  by (simp add: apiRequest_def Let_def split: fetched.splits option.splits sum.splits)

lemma apiRequest_Inr_iff:
  "fst (apiRequest endpoint options outcome w) = Inr v \<longleftrightarrow> outcome = Ok_response (Some v)"
  by (auto simp: result_apiRequest split: fetched.splits option.splits sum.splits)

lemma apiRequest_error_throws:
  "\<exists>e. fst (apiRequest endpoint options (Error_response st stText b) w) = Inl e"
  by (simp add: result_apiRequest split: sum.splits)

text \<open>
  C4, amended. Every call of \<open>apiRequest\<close> makes exactly one \<open>fetch\<close>, whatever comes
  back, and returns a value only for an ok response whose body parses. A response that
  is not ok always throws:
  \<^item> when the body parses as JSON and its \<open>detail\<close> is truthy, an \<open>Error\<close> made from
    that \<open>detail\<close>, so with the message \<open>detail\<close> for a non-empty string;
  \<^item> when the body parses as JSON (not to \<open>null\<close>) and has no truthy \<open>detail\<close>, an
    \<open>Error\<close> with the message \<open>HTTP <status>\<close>;
  \<^item> when the body parses to \<open>null\<close>, the \<open>TypeError\<close> of reading \<open>null.detail\<close>;
  \<^item> when the body does not parse, an \<open>Error\<close> with the status text as message, or
    \<open>HTTP <status>\<close> when the status text is empty.
\<close>

theorem apiRequest_one_fetch_errors_thrown:
  "length (sent (snd (apiRequest endpoint options outcome w))) = length (sent w) + 1
   \<and> take (length (sent w)) (sent (snd (apiRequest endpoint options outcome w))) = sent w
   \<and> (\<forall>v. fst (apiRequest endpoint options outcome w) = Inr v \<longrightarrow> outcome = Ok_response (Some v))
   \<and> (\<forall>st stText b. outcome = Error_response st stText b \<longrightarrow>
         (\<exists>e. fst (apiRequest endpoint options outcome w) = Inl e)
       \<and> (\<forall>kvs s. b = Some (JObj kvs) \<and> map_of (rev kvs) (js ''detail'') = Some (JStr s) \<and> s \<noteq> [] \<longrightarrow>
             fst (apiRequest endpoint options outcome w) = Inl (Error (JStr s)))
       \<and> (\<forall>j v. b = Some j \<and> get_detail j = Inr (Some v) \<and> truthy (Some v) \<longrightarrow>
             fst (apiRequest endpoint options outcome w) = Inl (Error v))
       \<and> (\<forall>j d. b = Some j \<and> get_detail j = Inr d \<and> \<not> truthy d \<longrightarrow>
             fst (apiRequest endpoint options outcome w)
               = Inl (Error (JStr (js ''HTTP '' @ digits st))))
       \<and> (b = Some JNull \<longrightarrow> fst (apiRequest endpoint options outcome w) = Inl TypeError)
       \<and> (b = None \<and> stText \<noteq> [] \<longrightarrow>
             fst (apiRequest endpoint options outcome w) = Inl (Error (JStr stText)))
       \<and> (b = None \<and> stText = [] \<longrightarrow>
             fst (apiRequest endpoint options outcome w)
               = Inl (Error (JStr (js ''HTTP '' @ digits st)))))"
proof -
  have one: "length (sent (snd (apiRequest endpoint options outcome w))) = length (sent w) + 1"
    "take (length (sent w)) (sent (snd (apiRequest endpoint options outcome w))) = sent w"
    by (simp_all add: sent_apiRequest)
  have ok: "\<forall>v. fst (apiRequest endpoint options outcome w) = Inr v \<longrightarrow> outcome = Ok_response (Some v)"
    by (simp add: apiRequest_Inr_iff)
  have err: "\<forall>st stText b. outcome = Error_response st stText b \<longrightarrow>
         (\<exists>e. fst (apiRequest endpoint options outcome w) = Inl e)
       \<and> (\<forall>kvs s. b = Some (JObj kvs) \<and> map_of (rev kvs) (js ''detail'') = Some (JStr s) \<and> s \<noteq> [] \<longrightarrow>
             fst (apiRequest endpoint options outcome w) = Inl (Error (JStr s)))
       \<and> (\<forall>j v. b = Some j \<and> get_detail j = Inr (Some v) \<and> truthy (Some v) \<longrightarrow>
             fst (apiRequest endpoint options outcome w) = Inl (Error v))
       \<and> (\<forall>j d. b = Some j \<and> get_detail j = Inr d \<and> \<not> truthy d \<longrightarrow>
             fst (apiRequest endpoint options outcome w)
               = Inl (Error (JStr (js ''HTTP '' @ digits st))))
       \<and> (b = Some JNull \<longrightarrow> fst (apiRequest endpoint options outcome w) = Inl TypeError)
       \<and> (b = None \<and> stText \<noteq> [] \<longrightarrow>
             fst (apiRequest endpoint options outcome w) = Inl (Error (JStr stText)))
       \<and> (b = None \<and> stText = [] \<longrightarrow>
             fst (apiRequest endpoint options outcome w)
               = Inl (Error (JStr (js ''HTTP '' @ digits st))))"
    by (auto simp: result_apiRequest or_else_def split: sum.splits option.splits)
  from one ok err show ?thesis by blast
qed

text \<open>
  C4 as stated fails twice. A \<open>404 Not Found\<close> whose body is not JSON throws
  \<open>Not Found\<close>, not \<open>HTTP 404\<close>: the status text comes first and \<open>HTTP <status>\<close>
  is its fallback. A \<open>500\<close> with the body \<open>{"detail": ""}\<close> throws \<open>HTTP 500\<close>, not
  the body's \<open>detail\<close>.
\<close>

theorem apiRequest_error_message_counterexample:
  "fst (apiRequest (js ''/todos'') no_options
          (Error_response 404 (js ''Not Found'') None :: Todo list fetched) example_world)
     = Inl (Error (JStr (js ''Not Found'')))
   \<and> js ''Not Found'' \<noteq> js ''HTTP 404''
   \<and> fst (apiRequest (js ''/todos'') no_options
          (Error_response 500 (js ''Internal Server Error'')
             (Some (JObj [(js ''detail'', JStr [])])) :: Todo list fetched) example_world)
     = Inl (Error (JStr (js ''HTTP 500'')))
   \<and> js ''HTTP 500'' \<noteq> []"
  by (simp add: result_apiRequest or_else_def js_def digits.simps)

text \<open>
  A \<open>401\<close> with a \<open>detail\<close> throws that detail; a \<open>502\<close> without body or status text
  throws \<open>HTTP 502\<close>; a \<open>500\<close> with the body \<open>null\<close> throws a \<open>TypeError\<close>; each after
  one request.
\<close>

theorem apiRequest_one_fetch_errors_thrown_witness:
  "fst (apiRequest (js ''/auth/login'') no_options
          (Error_response 401 (js ''Unauthorized'')
             (Some (JObj [(js ''detail'', JStr (js ''Incorrect username or password''))]))
           :: TokenResponse fetched) example_world)
     = Inl (Error (JStr (js ''Incorrect username or password'')))
   \<and> js ''Incorrect username or password'' \<noteq> []
   \<and> fst (apiRequest (js ''/auth/login'') no_options
          (Error_response 502 [] None :: TokenResponse fetched) example_world)
     = Inl (Error (JStr (js ''HTTP 502'')))
   \<and> fst (apiRequest (js ''/auth/login'') no_options
          (Error_response 500 (js ''Internal Server Error'') (Some JNull) :: TokenResponse fetched)
          example_world) = Inl TypeError
   \<and> length (sent (snd (apiRequest (js ''/auth/login'') no_options
          (Error_response 502 [] None :: TokenResponse fetched) example_world))) = 1"
  using apiRequest_one_fetch_errors_thrown [of "js ''/auth/login''" no_options
      "Error_response 401 (js ''Unauthorized'')
         (Some (JObj [(js ''detail'', JStr (js ''Incorrect username or password''))]))
       :: TokenResponse fetched" example_world]
    apiRequest_one_fetch_errors_thrown [of "js ''/auth/login''" no_options
      "Error_response 502 [] None :: TokenResponse fetched" example_world]
    apiRequest_one_fetch_errors_thrown [of "js ''/auth/login''" no_options
      "Error_response 500 (js ''Internal Server Error'') (Some JNull) :: TokenResponse fetched"
      example_world]
  by (simp add: js_def digits.simps example_world_def or_else_def)

subsection \<open>Registration\<close>

lemma AuthAPI_register_success:
  assumes "AuthAPI_register userData outcome w = (Inr response, w')"
  shows "outcome = Ok_response (Some response)"
    and "w' = setToken (access_token response) (snd (apiRequest (js ''/auth/register'')
             \<lparr> ri_method = Some (js ''POST''),
               ri_body = Some (Stringify_UserCreate userData),
               ri_headers = None \<rparr> outcome w))"
proof -
  let ?call = "apiRequest (js ''/auth/register'')
             \<lparr> ri_method = Some (js ''POST''),
               ri_body = Some (Stringify_UserCreate userData),
               ri_headers = None \<rparr> outcome w"
  from assms obtain w1 where call: "?call = (Inr response, w1)"
    and w': "w' = setToken (access_token response) w1"
    by (auto simp: AuthAPI_register_def split: prod.splits sum.splits)
  from call have "fst ?call = Inr response" by simp
  then show "outcome = Ok_response (Some response)"
    by (simp only: apiRequest_Inr_iff)
  from call have "snd ?call = w1" by simp
  with w' show "w' = setToken (access_token response) (snd ?call)" by simp
qed

lemma getToken_setToken [simp]: "getToken (setToken t w) = Some t"
  by (simp add: getToken_def setToken_def)

text \<open>
  C2, amended. When \<open>AuthAPI.register\<close> returns a response, the one request it made was
  the \<open>POST\<close> to \<open>/auth/register\<close>, that request came back ok with this response, and its
  \<open>access_token\<close> is stored: the next \<open>getToken()\<close> returns it. When
  \<open>AuthProvider.register\<close> succeeds, \<open>AuthAPI.register\<close> has returned a response, and
  the context holds that response's \<open>user\<close> and \<open>access_token\<close>. The user then counts as
  authenticated, without a login request, exactly when that \<open>access_token\<close> is not the
  empty string.
\<close>

theorem register_logs_in:
  "(AuthAPI_register userData outcome w = (Inr response, w') \<longrightarrow>
      outcome = Ok_response (Some response)
      \<and> getToken w' = Some (access_token response)
      \<and> length (sent w') = length (sent w) + 1
      \<and> req_url (last (sent w')) = js ''/api/auth/register''
      \<and> req_method (last (sent w')) = Some (js ''POST''))
   \<and> (AuthProvider_register userData outcome (st, w) = (Inr (), st', w') \<longrightarrow>
        (\<exists>response. AuthAPI_register userData outcome w = (Inr response, w')
           \<and> st_user st' = Some (user response)
           \<and> st_token st' = Some (access_token response)
           \<and> isAuthenticated st' = (access_token response \<noteq> [])))"
proof (intro conjI impI)
  assume reg: "AuthAPI_register userData outcome w = (Inr response, w')"
  note s = AuthAPI_register_success [OF reg]
  show "outcome = Ok_response (Some response)" by (rule s(1))
  show "getToken w' = Some (access_token response)"
    by (simp add: s(2))
  show "length (sent w') = length (sent w) + 1"
    and "req_url (last (sent w')) = js ''/api/auth/register''"
    and "req_method (last (sent w')) = Some (js ''POST'')"
    by (simp_all add: s(2) sent_apiRequest API_BASE_URL_def js_def)
next
  assume "AuthProvider_register userData outcome (st, w) = (Inr (), st', w')"
  then obtain response where
    reg: "AuthAPI_register userData outcome w = (Inr response, w')"
    and st': "st' = st\<lparr>st_token := Some (access_token response), st_user := Some (user response)\<rparr>"
    by (auto simp: AuthProvider_register_def split: prod.splits sum.splits)
  then show "\<exists>response. AuthAPI_register userData outcome w = (Inr response, w')
           \<and> st_user st' = Some (user response)
           \<and> st_token st' = Some (access_token response)
           \<and> isAuthenticated st' = (access_token response \<noteq> [])"
    by (auto simp: isAuthenticated_def truthy_string_def)
qed

text \<open>
  C2 as stated fails when the server answers with the token \<open>''\<close>: registration
  succeeds, the token is stored and the context holds the user and the token, but
  \<open>isAuthenticated\<close> is \<open>!!user && !!token\<close>, which is false, and the app keeps showing
  the login page.
\<close>

theorem register_empty_token_counterexample:
  "fst (AuthProvider_register example_user_create (Ok_response (Some empty_token_response))
          (logged_out, removeToken example_world)) = Inr ()
   \<and> st_user (fst (snd (AuthProvider_register example_user_create
          (Ok_response (Some empty_token_response)) (logged_out, removeToken example_world))))
       = Some example_user
   \<and> st_token (fst (snd (AuthProvider_register example_user_create
          (Ok_response (Some empty_token_response)) (logged_out, removeToken example_world))))
       = Some []
   \<and> getToken (snd (snd (AuthProvider_register example_user_create
          (Ok_response (Some empty_token_response)) (logged_out, removeToken example_world))))
       = Some []
   \<and> \<not> isAuthenticated (fst (snd (AuthProvider_register example_user_create
          (Ok_response (Some empty_token_response)) (logged_out, removeToken example_world))))"
  by (simp add: AuthProvider_register_def AuthAPI_register_def apiRequest_def Let_def
      logged_out_def empty_token_response_def example_token_response_def
      isAuthenticated_def truthy_string_def)

text \<open>Registering \<open>alice\<close> from the logged-out state, the server answering \<open>tok-2\<close>.\<close>

theorem register_logs_in_witness:
  "fst (AuthProvider_register example_user_create (Ok_response (Some example_token_response))
          (logged_out, removeToken example_world)) = Inr ()
   \<and> getToken (snd (snd (AuthProvider_register example_user_create
          (Ok_response (Some example_token_response)) (logged_out, removeToken example_world))))
       = Some (js ''tok-2'')
   \<and> st_user (fst (snd (AuthProvider_register example_user_create
          (Ok_response (Some example_token_response)) (logged_out, removeToken example_world))))
       = Some example_user
   \<and> isAuthenticated (fst (snd (AuthProvider_register example_user_create
          (Ok_response (Some example_token_response)) (logged_out, removeToken example_world))))
   \<and> length (sent (snd (snd (AuthProvider_register example_user_create
          (Ok_response (Some example_token_response)) (logged_out, removeToken example_world)))))
       = 1"
proof -
  obtain r st' w' where run:
    "AuthProvider_register example_user_create (Ok_response (Some example_token_response))
       (logged_out, removeToken example_world) = (r, st', w')"
    by (rule prod_cases3)
  obtain w1 where api: "AuthAPI_register example_user_create
       (Ok_response (Some example_token_response)) (removeToken example_world)
     = (Inr example_token_response, w1)"
    by (simp add: AuthAPI_register_def apiRequest_def Let_def)
  with run have r: "r = Inr ()" and w': "w' = w1"
    by (simp_all add: AuthProvider_register_def)
  have old: "sent (removeToken example_world) = []"
    by (simp add: removeToken_def example_world_def)
  from register_logs_in [of example_user_create "Ok_response (Some example_token_response)"
      "removeToken example_world" example_token_response w' logged_out st']
    run api r w' old
  show ?thesis
    by (auto simp: example_token_response_def js_def)
qed

subsection \<open>The task form\<close>

text \<open>String comparison is a strict linear order; \<open><=\<close> is \<open><\<close> or equal.\<close>

lemma js_lt_irrefl: "\<not> js_lt a a"
  by (induction a) auto

lemma js_le_iff: "js_le a b \<longleftrightarrow> js_lt a b \<or> a = b"
  unfolding js_le_def
  by (induction a b rule: js_lt.induct) auto

lemma js_lt_trans: "js_lt a b \<Longrightarrow> js_lt b c \<Longrightarrow> js_lt a c"
proof (induction a b arbitrary: c rule: js_lt.induct)
  case (2 y ys)
  then show ?case by (cases c) auto
next
  case (4 x xs y ys)
  then show ?case by (cases c) auto
qed auto

lemma validate_ok_iff:
  "snd (validate fd) \<longleftrightarrow>
     trim (title fd) \<noteq> [] \<and> trim (category fd) \<noteq> [] \<and> startDate fd \<noteq> [] \<and> endDate fd \<noteq> []
     \<and> \<not> js_gt (startDate fd) (endDate fd)"
  unfolding validate_def Let_def
  by (simp del: AList.update.simps)

lemma validate_endDate_error:
  assumes "js_gt (startDate fd) (endDate fd)"
  shows "map_of (fst (validate fd)) (js ''endDate'') =
      Some (if endDate fd = [] then js ''End date is required''
            else js ''End date must be after start date'')"
proof -
  from assms have "startDate fd \<noteq> []"
    by (cases "endDate fd") (auto simp: js_gt_def)
  then show ?thesis
    using assms unfolding validate_def Let_def
    by (simp add: update_conv' del: AList.update.simps)
qed

text \<open>
  C6. \<open>handleSubmit\<close> calls \<open>onSave\<close> (with the form data) if and only if the trimmed
  title and the trimmed category are non-empty, both dates are non-empty and
  \<open>startDate <= endDate\<close> as strings, which holds for equal dates; otherwise \<open>onSave\<close>
  is not called. A form whose \<open>startDate\<close> is greater than its \<open>endDate\<close> is not saved
  and gets an error on \<open>endDate\<close>.
\<close>

theorem handleSubmit_saves_iff_valid:
  "(snd (handleSubmit fd) = Some fd \<longleftrightarrow>
      trim (title fd) \<noteq> [] \<and> trim (category fd) \<noteq> [] \<and> startDate fd \<noteq> [] \<and> endDate fd \<noteq> []
      \<and> js_le (startDate fd) (endDate fd))
   \<and> (snd (handleSubmit fd) \<noteq> Some fd \<longleftrightarrow> snd (handleSubmit fd) = None)
   \<and> (js_le (startDate fd) (endDate fd) \<longleftrightarrow>
        js_lt (startDate fd) (endDate fd) \<or> startDate fd = endDate fd)
   \<and> (js_gt (startDate fd) (endDate fd) \<longrightarrow>
        snd (handleSubmit fd) = None
        \<and> map_of (fst (handleSubmit fd)) (js ''endDate'') =
            Some (if endDate fd = [] then js ''End date is required''
                  else js ''End date must be after start date''))"
proof -
  have hs: "handleSubmit fd = (fst (validate fd), if snd (validate fd) then Some fd else None)"
    by (simp add: handleSubmit_def split: prod.splits)
  have a: "snd (handleSubmit fd) = Some fd \<longleftrightarrow>
      trim (title fd) \<noteq> [] \<and> trim (category fd) \<noteq> [] \<and> startDate fd \<noteq> [] \<and> endDate fd \<noteq> []
      \<and> js_le (startDate fd) (endDate fd)"
    by (simp add: hs validate_ok_iff js_le_def js_gt_def)
  have b: "snd (handleSubmit fd) \<noteq> Some fd \<longleftrightarrow> snd (handleSubmit fd) = None"
    by (simp add: hs)
  have c: "js_gt (startDate fd) (endDate fd) \<longrightarrow>
        snd (handleSubmit fd) = None
        \<and> map_of (fst (handleSubmit fd)) (js ''endDate'') =
            Some (if endDate fd = [] then js ''End date is required''
                  else js ''End date must be after start date'')"
    using validate_endDate_error [of fd] by (simp add: hs validate_ok_iff)
  from a b c js_le_iff [of "startDate fd" "endDate fd"] show ?thesis by blast
qed

text \<open>
  A form from 2024-05-01 to 2024-05-01 is saved; moved to end on 2024-04-30 it is
  rejected with \<open>End date must be after start date\<close>.
\<close>

theorem handleSubmit_saves_iff_valid_witness:
  "snd (handleSubmit example_form) = Some example_form
   \<and> startDate example_form = endDate example_form
   \<and> js_gt (startDate (example_form\<lparr>endDate := js ''2024-04-30''\<rparr>))
           (endDate (example_form\<lparr>endDate := js ''2024-04-30''\<rparr>))
   \<and> snd (handleSubmit (example_form\<lparr>endDate := js ''2024-04-30''\<rparr>)) = None
   \<and> map_of (fst (handleSubmit (example_form\<lparr>endDate := js ''2024-04-30''\<rparr>))) (js ''endDate'')
        = Some (js ''End date must be after start date'')"
proof -
  have gt: "js_gt (startDate (example_form\<lparr>endDate := js ''2024-04-30''\<rparr>))
           (endDate (example_form\<lparr>endDate := js ''2024-04-30''\<rparr>))"
    by (simp add: example_form_def js_gt_def js_def)
  have ne: "endDate (example_form\<lparr>endDate := js ''2024-04-30''\<rparr>) \<noteq> []"
    by (simp add: js_def)
  have ok: "trim (title example_form) \<noteq> [] \<and> trim (category example_form) \<noteq> []
      \<and> startDate example_form \<noteq> [] \<and> endDate example_form \<noteq> []
      \<and> startDate example_form = endDate example_form"
    by (simp add: example_form_def trim_def is_whitespace_def js_def)
  show ?thesis
    using handleSubmit_saves_iff_valid [of example_form]
      handleSubmit_saves_iff_valid [of "example_form\<lparr>endDate := js ''2024-04-30''\<rparr>"]
      gt ne ok
    by simp
qed

subsection \<open>The task list of the app\<close>


lemma deleteTask_failure:
  "out \<noteq> Ok_response (Some ()) \<Longrightarrow>
   tasks (fst (deleteTask captured ident out (st, w))) = tasks st"
  by (auto simp: deleteTask_def TodoAPI_deleteTodo_def apiRequest_def Let_def
      split: fetched.splits option.splits sum.splits prod.splits)


lemma updateTask_failure:
  "(\<forall>u. out \<noteq> Ok_response (Some u)) \<Longrightarrow>
   tasks (fst (updateTask captured ident updates out (st, w))) = tasks st"
  by (auto simp: updateTask_def TodoAPI_updateTodo_def apiRequest_def Let_def
      split: fetched.splits option.splits sum.splits prod.splits)





subsection \<open>The admin dashboard\<close>

text \<open>
  Printing an integer in decimal is injective, so the URL of an admin request names
  one user.
\<close>

lemma unat_digit: "a < 10 \<Longrightarrow> unat (48 + of_nat a :: 16 word) = 48 + a"
  by (simp add: unat_word_ariths unat_of_nat)

lemma digits_nonempty: "digits n \<noteq> []"
  by (subst digits.simps) simp

lemma digits_last: "unat (last (digits n)) = 48 + n mod 10"
  by (subst digits.simps) (simp add: unat_digit)

lemma digits_butlast: "10 \<le> n \<Longrightarrow> butlast (digits n) = digits (n div 10)"
  by (subst digits.simps) simp

lemma digits_length_one: "length (digits n) = 1 \<longleftrightarrow> n < 10"
  by (subst digits.simps) (simp add: digits_nonempty)

lemma digits_hd: "unat (hd (digits n)) \<noteq> 45"
proof (induction n rule: digits.induct)
  case (1 n)
  show ?case
  proof (cases "n < 10")
    case True
    then show ?thesis
      by (subst digits.simps) (simp add: unat_digit)
  next
    case False
    with 1 show ?thesis
      by (subst digits.simps) (simp add: digits_nonempty)
  qed
qed

lemma digits_inj: "digits n = digits m \<Longrightarrow> n = m"
proof (induction n arbitrary: m rule: digits.induct)
  case (1 n)
  from "1.prems" have len: "(n < 10) = (m < 10)"
    using digits_length_one [of n] digits_length_one [of m] by simp
  from "1.prems" have l: "n mod 10 = m mod 10"
    using digits_last [of n] digits_last [of m] by simp
  show ?case
  proof (cases "n < 10")
    case True
    with len l show ?thesis by simp
  next
    case False
    with len have "10 \<le> n" "10 \<le> m" by simp_all
    with "1.prems" have "digits (n div 10) = digits (m div 10)"
      using digits_butlast [of n] digits_butlast [of m] by simp
    with "1.IH" False have "n div 10 = m div 10" by simp
    with l show ?thesis
      by (metis div_mult_mod_eq)
  qed
qed

lemma toString_inj: "toString a = toString b \<Longrightarrow> a = b"
proof -
  assume eq: "toString a = toString b"
  have minus: "unat (hd (js ''-'' @ digits k)) = 45" for k
    by (simp add: js_def)
  show ?thesis
  proof (cases "a < 0"; cases "b < 0")
    assume "a < 0" "b < 0"
    with eq have "digits (nat (- a)) = digits (nat (- b))"
      by (simp add: toString_def)
    then have "nat (- a) = nat (- b)" by (rule digits_inj)
    with \<open>a < 0\<close> \<open>b < 0\<close> show ?thesis by simp
  next
    assume "a < 0" "\<not> b < 0"
    with eq have "js ''-'' @ digits (nat (- a)) = digits (nat b)"
      by (simp add: toString_def)
    with minus [of "nat (- a)"] digits_hd [of "nat b"] show ?thesis by simp
  next
    assume "\<not> a < 0" "b < 0"
    with eq have "digits (nat a) = js ''-'' @ digits (nat (- b))"
      by (simp add: toString_def)
    with minus [of "nat (- b)"] digits_hd [of "nat a"] show ?thesis by simp
  next
    assume "\<not> a < 0" "\<not> b < 0"
    with eq have "digits (nat a) = digits (nat b)"
      by (simp add: toString_def)
    then have "nat a = nat b" by (rule digits_inj)
    with \<open>\<not> a < 0\<close> \<open>\<not> b < 0\<close> show ?thesis by simp
  qed
qed

text \<open>The requests a handler adds: its own, then the two \<open>GET\<close>s of \<open>loadData\<close>.\<close>

lemma sent_loadData:
  "r \<in> set (sent (snd (loadData o_load (st, w)))) \<Longrightarrow> r \<in> set (sent w) \<or> req_method r = None"
proof -
  obtain o_users o_stats users_first where o: "o_load = (o_users, o_stats, users_first)"
    by (cases o_load)
  have "sent (snd (loadData o_load (st, w))) =
      sent (snd (AdminAPI_getSystemStats o_stats (snd (AdminAPI_getAllUsers o_users w))))"
    by (simp add: loadData_def o Let_def split: prod.splits sum.splits)
  moreover assume "r \<in> set (sent (snd (loadData o_load (st, w))))"
  ultimately show ?thesis
    by (auto simp: AdminAPI_getSystemStats_def AdminAPI_getAllUsers_def sent_apiRequest
        no_options_def)
qed

lemma sent_handleToggleAdmin:
  assumes "r \<in> set (sent (snd (handleToggleAdmin userId o_toggle o_load (st, w))))"
  shows "r \<in> set (sent w) \<or> req_method r = None
     \<or> (req_method r = Some (js ''PUT'')
        \<and> req_url r = API_BASE_URL @ js ''/admin/users/'' @ toString userId @ js ''/role'')"
proof -
  let ?call = "AdminAPI_toggleAdminRole (Num userId) o_toggle w"
  have first: "sent (snd ?call) = sent w @
      [\<lparr> req_url = API_BASE_URL @ js ''/admin/users/'' @ toString userId @ js ''/role'',
         req_method = Some (js ''PUT''), req_body = None,
         req_headers = req_headers (last (sent (snd ?call))) \<rparr>]"
    by (simp add: AdminAPI_toggleAdminRole_def sent_apiRequest)
  obtain res w1 where call: "?call = (res, w1)"
    by (cases ?call)
  from first call have w1: "sent w1 = sent w @
      [\<lparr> req_url = API_BASE_URL @ js ''/admin/users/'' @ toString userId @ js ''/role'',
         req_method = Some (js ''PUT''), req_body = None,
         req_headers = req_headers (last (sent w1)) \<rparr>]"
    by simp
  have "r \<in> set (sent w1) \<or> req_method r = None"
  proof (cases res)
    case (Inl err)
    with call assms show ?thesis
      by (simp add: handleToggleAdmin_def)
  next
    case (Inr u)
    with call assms have "r \<in> set (sent (snd (loadData o_load (st, w1))))"
      by (simp add: handleToggleAdmin_def)
    then show ?thesis by (rule sent_loadData)
  qed
  then show ?thesis
  proof
    assume "r \<in> set (sent w1)"
    then have "r \<in> set (sent w) \<or>
        r = \<lparr> req_url = API_BASE_URL @ js ''/admin/users/'' @ toString userId @ js ''/role'',
         req_method = Some (js ''PUT''), req_body = None,
         req_headers = req_headers (last (sent w1)) \<rparr>"
      by (subst (asm) w1) auto
    then show ?thesis by auto
  qed simp
qed

lemma sent_handleDeleteUser:
  assumes "r \<in> set (sent (snd (handleDeleteUser userId confirmed o_delete o_load (st, w))))"
  shows "r \<in> set (sent w) \<or> req_method r = None
     \<or> (req_method r = Some (js ''DELETE'')
        \<and> req_url r = API_BASE_URL @ js ''/admin/users/'' @ toString userId)"
proof (cases "awaiting_delete userId confirmed st")
  case None
  with assms show ?thesis
    by (simp add: handleDeleteUser_def)
next
  case (Some st1)
  let ?call = "AdminAPI_deleteUser (Num userId) o_delete w"
  obtain res w1 where call: "?call = (res, w1)"
    by (cases ?call)
  have "sent (snd ?call) = sent w @
      [\<lparr> req_url = API_BASE_URL @ js ''/admin/users/'' @ toString userId,
         req_method = Some (js ''DELETE''), req_body = None,
         req_headers = req_headers (last (sent (snd ?call))) \<rparr>]"
    by (simp add: AdminAPI_deleteUser_def sent_apiRequest)
  with call have w1: "sent w1 = sent w @
      [\<lparr> req_url = API_BASE_URL @ js ''/admin/users/'' @ toString userId,
         req_method = Some (js ''DELETE''), req_body = None,
         req_headers = req_headers (last (sent w1)) \<rparr>]"
    by simp
  have "r \<in> set (sent w1) \<or> req_method r = None"
  proof (cases res)
    case (Inl err)
    with call Some assms show ?thesis
      by (simp add: handleDeleteUser_def)
  next
    case (Inr u)
    with call Some assms have "r \<in> set (sent (snd (loadData o_load (st1, w1))))"
      by (simp add: handleDeleteUser_def split: prod.splits)
    then show ?thesis by (rule sent_loadData)
  qed
  then show ?thesis
  proof
    assume "r \<in> set (sent w1)"
    then have "r \<in> set (sent w) \<or>
        r = \<lparr> req_url = API_BASE_URL @ js ''/admin/users/'' @ toString userId,
         req_method = Some (js ''DELETE''), req_body = None,
         req_headers = req_headers (last (sent w1)) \<rparr>"
      by (subst (asm) w1) auto
    then show ?thesis by auto
  qed simp
qed

lemma targets_user_other:
  assumes "targets_user cur r" and "userId \<noteq> cur"
  shows "req_method r \<noteq> None"
    and "\<not> (req_method r = Some (js ''PUT'')
        \<and> req_url r = API_BASE_URL @ js ''/admin/users/'' @ toString userId @ js ''/role'')"
    and "\<not> (req_method r = Some (js ''DELETE'')
        \<and> req_url r = API_BASE_URL @ js ''/admin/users/'' @ toString userId)"
proof -
  have methods: "js ''PUT'' \<noteq> js ''DELETE''"
    by (simp add: js_def)
  from assms(1) show "req_method r \<noteq> None"
    by (auto simp: targets_user_def)
  show "\<not> (req_method r = Some (js ''PUT'')
        \<and> req_url r = API_BASE_URL @ js ''/admin/users/'' @ toString userId @ js ''/role'')"
    using assms methods by (auto simp: targets_user_def dest: toString_inj)
  show "\<not> (req_method r = Some (js ''DELETE'')
        \<and> req_url r = API_BASE_URL @ js ''/admin/users/'' @ toString userId)"
    using assms methods by (auto simp: targets_user_def dest: toString_inj)
qed

lemma render_row_buttons:
  "row_key (render_row c d u) = user_id u"
  "toggle_onClick (render_row c d u) = user_id u"
  "delete_onClick (render_row c d u) = user_id u"
  "toggle_disabled (render_row c d u) \<longleftrightarrow> user_id u = c"
  "delete_disabled (render_row c d u) \<longleftrightarrow> user_id u = c \<or> d = Some (user_id u)"
  by (simp_all add: render_row_def Let_def)

lemma row_in_AdminPage:
  assumes "row \<in> set (AdminPage currentUserId st)"
  shows "\<exists>u \<in> set (users st). row = render_row currentUserId (deletingUserId st) u"
  using assms by (auto simp: AdminPage_def split: if_splits)

text \<open>
  C1, amended. In every row the page renders, both buttons pass the row's user id to
  their handler. In the row of the requesting admin (\<open>currentUserId\<close>) both buttons are
  disabled and a click does nothing. In a row of another user the role button is
  enabled, and the delete button is enabled unless a delete of that very user is in
  flight (\<open>deletingUserId\<close> is the row's id). No click on any button of any row makes a
  \<open>DELETE /admin/users/{id}\<close> or \<open>PUT /admin/users/{id}/role\<close> request whose \<open>id\<close> is
  the requester's.
\<close>

theorem admin_rows_protect_requester:
  "\<forall>row \<in> set (AdminPage currentUserId st).
     toggle_onClick row = row_key row \<and> delete_onClick row = row_key row
     \<and> (row_key row = currentUserId \<longrightarrow>
          toggle_disabled row \<and> delete_disabled row
          \<and> click_toggle row o_toggle o_load (st, w) = (st, w)
          \<and> click_delete row confirmed o_delete o_load (st, w) = (st, w))
     \<and> (row_key row \<noteq> currentUserId \<longrightarrow>
          \<not> toggle_disabled row
          \<and> (delete_disabled row \<longleftrightarrow> deletingUserId st = Some (row_key row)))
     \<and> (\<forall>r \<in> set (sent (snd (click_toggle row o_toggle o_load (st, w)))).
          targets_user currentUserId r \<longrightarrow> r \<in> set (sent w))
     \<and> (\<forall>r \<in> set (sent (snd (click_delete row confirmed o_delete o_load (st, w)))).
          targets_user currentUserId r \<longrightarrow> r \<in> set (sent w))"
proof
  fix row
  assume "row \<in> set (AdminPage currentUserId st)"
  then obtain u where row: "row = render_row currentUserId (deletingUserId st) u"
    using row_in_AdminPage by blast
  have a: "toggle_onClick row = row_key row \<and> delete_onClick row = row_key row"
    by (simp add: row render_row_buttons)
  have b: "row_key row = currentUserId \<longrightarrow>
          toggle_disabled row \<and> delete_disabled row
          \<and> click_toggle row o_toggle o_load (st, w) = (st, w)
          \<and> click_delete row confirmed o_delete o_load (st, w) = (st, w)"
    by (simp add: row render_row_buttons click_toggle_def click_delete_def)
  have c: "row_key row \<noteq> currentUserId \<longrightarrow>
          \<not> toggle_disabled row
          \<and> (delete_disabled row \<longleftrightarrow> deletingUserId st = Some (row_key row))"
    by (simp add: row render_row_buttons)
  have d: "\<forall>r \<in> set (sent (snd (click_toggle row o_toggle o_load (st, w)))).
          targets_user currentUserId r \<longrightarrow> r \<in> set (sent w)"
  proof (intro ballI impI)
    fix r
    assume r: "r \<in> set (sent (snd (click_toggle row o_toggle o_load (st, w))))"
      and t: "targets_user currentUserId r"
    show "r \<in> set (sent w)"
    proof (cases "toggle_disabled row")
      case True
      with r show ?thesis by (simp add: click_toggle_def)
    next
      case False
      then have other: "row_key row \<noteq> currentUserId"
        by (simp add: row render_row_buttons)
      from False r have
        "r \<in> set (sent (snd (handleToggleAdmin (row_key row) o_toggle o_load (st, w))))"
        by (simp add: click_toggle_def a)
      from sent_handleToggleAdmin [OF this] targets_user_other [OF t other]
      show ?thesis by blast
    qed
  qed
  have e: "\<forall>r \<in> set (sent (snd (click_delete row confirmed o_delete o_load (st, w)))).
          targets_user currentUserId r \<longrightarrow> r \<in> set (sent w)"
  proof (intro ballI impI)
    fix r
    assume r: "r \<in> set (sent (snd (click_delete row confirmed o_delete o_load (st, w))))"
      and t: "targets_user currentUserId r"
    show "r \<in> set (sent w)"
    proof (cases "delete_disabled row")
      case True
      with r show ?thesis by (simp add: click_delete_def)
    next
      case False
      then have other: "row_key row \<noteq> currentUserId"
        by (simp add: row render_row_buttons)
      from False r have
        "r \<in> set (sent (snd (handleDeleteUser (row_key row) confirmed o_delete o_load (st, w))))"
        by (simp add: click_delete_def a)
      from sent_handleDeleteUser [OF this] targets_user_other [OF t other]
      show ?thesis by blast
    qed
  qed
  from a b c d e show "toggle_onClick row = row_key row \<and> delete_onClick row = row_key row
     \<and> (row_key row = currentUserId \<longrightarrow>
          toggle_disabled row \<and> delete_disabled row
          \<and> click_toggle row o_toggle o_load (st, w) = (st, w)
          \<and> click_delete row confirmed o_delete o_load (st, w) = (st, w))
     \<and> (row_key row \<noteq> currentUserId \<longrightarrow>
          \<not> toggle_disabled row
          \<and> (delete_disabled row \<longleftrightarrow> deletingUserId st = Some (row_key row)))
     \<and> (\<forall>r \<in> set (sent (snd (click_toggle row o_toggle o_load (st, w)))).
          targets_user currentUserId r \<longrightarrow> r \<in> set (sent w))
     \<and> (\<forall>r \<in> set (sent (snd (click_delete row confirmed o_delete o_load (st, w)))).
          targets_user currentUserId r \<longrightarrow> r \<in> set (sent w))"
    by blast
qed

text \<open>
  C1 as stated fails while a delete is in flight: admin 7 has confirmed the deletion of
  user 8, the page is shown with \<open>deletingUserId = 8\<close>, and the delete button in the row
  of user 8, a row with a different id, is disabled.
\<close>

theorem admin_rows_counterexample:
  "awaiting_delete 8 True example_admin = Some (example_admin\<lparr>deletingUserId := Some 8\<rparr>)
   \<and> length (AdminPage 7 (example_admin\<lparr>deletingUserId := Some 8\<rparr>)) = 2
   \<and> row_key (AdminPage 7 (example_admin\<lparr>deletingUserId := Some 8\<rparr>) ! 1) = 8
   \<and> (8::int) \<noteq> 7
   \<and> delete_disabled (AdminPage 7 (example_admin\<lparr>deletingUserId := Some 8\<rparr>) ! 1)"
  by (simp add: awaiting_delete_def AdminPage_def render_row_buttons example_admin_def
      alice_def bob_def example_user_def)

text \<open>
  Admin 7 (alice) looking at alice and bob: both buttons of her own row are disabled and
  clicking them changes nothing; both buttons of bob's row are enabled.
\<close>

theorem admin_rows_protect_requester_witness:
  "render_row 7 None alice \<in> set (AdminPage 7 example_admin)
   \<and> row_key (render_row 7 None alice) = 7
   \<and> toggle_disabled (render_row 7 None alice)
   \<and> delete_disabled (render_row 7 None alice)
   \<and> click_toggle (render_row 7 None alice) Rejected (Rejected, Rejected, True)
         (example_admin, example_world) = (example_admin, example_world)
   \<and> click_delete (render_row 7 None alice) True Rejected (Rejected, Rejected, True)
         (example_admin, example_world) = (example_admin, example_world)
   \<and> render_row 7 None bob \<in> set (AdminPage 7 example_admin)
   \<and> row_key (render_row 7 None bob) \<noteq> 7
   \<and> \<not> toggle_disabled (render_row 7 None bob)
   \<and> \<not> delete_disabled (render_row 7 None bob)"
proof -
  have rows: "AdminPage 7 example_admin = [render_row 7 None alice, render_row 7 None bob]"
    by (simp add: AdminPage_def example_admin_def)
  have keys: "row_key (render_row 7 None alice) = 7" "row_key (render_row 7 None bob) \<noteq> 7"
    by (simp_all add: render_row_buttons alice_def bob_def example_user_def)
  have a: "render_row 7 None alice \<in> set (AdminPage 7 example_admin)"
    and b: "render_row 7 None bob \<in> set (AdminPage 7 example_admin)"
    by (simp_all add: rows)
  have none: "deletingUserId example_admin = None"
    by (simp add: example_admin_def)
  have own: "toggle_disabled (render_row 7 None alice)
      \<and> delete_disabled (render_row 7 None alice)
      \<and> click_toggle (render_row 7 None alice) Rejected (Rejected, Rejected, True)
            (example_admin, example_world) = (example_admin, example_world)
      \<and> click_delete (render_row 7 None alice) True Rejected (Rejected, Rejected, True)
            (example_admin, example_world) = (example_admin, example_world)"
    using admin_rows_protect_requester [of 7 example_admin Rejected "(Rejected, Rejected, True)"
        example_world True Rejected, THEN bspec, OF a] keys(1)
    by blast
  have other: "\<not> toggle_disabled (render_row 7 None bob)
      \<and> (delete_disabled (render_row 7 None bob)
           \<longleftrightarrow> deletingUserId example_admin = Some (row_key (render_row 7 None bob)))"
    using admin_rows_protect_requester [of 7 example_admin Rejected "(Rejected, Rejected, True)"
        example_world True Rejected, THEN bspec, OF b] keys(2)
    by blast
  from other none have "\<not> delete_disabled (render_row 7 None bob)"
    by simp
  with own other a b keys show ?thesis
    by blast
qed

subsection \<open>The dashboard statistics\<close>

text \<open>Rounding to an integer moves a number by at most a half.\<close>

lemma round_half_even_error: "\<bar>of_int (round_half_even m) - m\<bar> \<le> 1 / 2"
proof -
  define d where "d = m - of_int \<lfloor>m\<rfloor>"
  have d: "0 \<le> d" "d < 1"
    unfolding d_def by linarith+
  have m: "m = of_int \<lfloor>m\<rfloor> + d"
    by (simp add: d_def)
  consider "d < 1 / 2" | "1 / 2 < d" | "d = 1 / 2" by linarith
  then show ?thesis
  proof cases
    case 1
    then have "round_half_even m = \<lfloor>m\<rfloor>"
      by (simp add: round_half_even_def Let_def d_def)
    with 1 d show ?thesis by (simp add: d_def)
  next
    case 2
    then have "round_half_even m = \<lfloor>m\<rfloor> + 1"
      by (simp add: round_half_even_def Let_def d_def)
    with 2 d show ?thesis by (simp add: d_def)
  next
    case 3
    then have "round_half_even m = \<lfloor>m\<rfloor> \<or> round_half_even m = \<lfloor>m\<rfloor> + 1"
      by (simp add: round_half_even_def Let_def d_def)
    with 3 show ?thesis by (auto simp: d_def)
  qed
qed

lemma round_half_even_nonneg: "0 \<le> m \<Longrightarrow> 0 \<le> round_half_even m"
  unfolding round_half_even_def Let_def by (auto simp: zero_le_floor)

text \<open>\<open>ilog2\<close> is the binade exponent, and the only one.\<close>

lemma bit_length_bounds:
  "0 < a \<Longrightarrow> 2 ^ (bit_length a - 1) \<le> a \<and> a < 2 ^ bit_length a"
proof (induction a rule: bit_length.induct)
  case (1 a)
  show ?case
  proof (cases "a div 2 \<le> 0")
    case True
    with "1.prems" have "a = 1" by presburger
    then show ?thesis
      by (simp add: bit_length.simps)
  next
    case False
    with "1.IH" "1.prems" have IH: "2 ^ (bit_length (a div 2) - 1) \<le> a div 2"
      "a div 2 < 2 ^ bit_length (a div 2)"
      by simp_all
    have pos: "0 < bit_length (a div 2)"
      using False by (subst bit_length.simps) simp
    have b: "bit_length a = bit_length (a div 2) + 1"
      using "1.prems" by (subst bit_length.simps) simp
    have "(2::int) ^ (bit_length a - 1) = 2 * 2 ^ (bit_length (a div 2) - 1)"
      using pos by (simp add: b power_eq_if)
    also have "\<dots> \<le> 2 * (a div 2)"
      using IH(1) by simp
    also have "\<dots> \<le> a" by presburger
    finally have lo: "2 ^ (bit_length a - 1) \<le> a" .
    have "a < 2 * (a div 2 + 1)" by presburger
    also have "\<dots> \<le> 2 * 2 ^ bit_length (a div 2)"
      using IH(2) by simp
    finally have "a < 2 ^ bit_length a"
      by (simp add: b)
    with lo show ?thesis by simp
  qed
qed

lemma ilog2_bounds:
  assumes "0 < x"
  shows "2 powi (ilog2 x) \<le> x" and "x < 2 powi (ilog2 x + 1)"
proof -
  obtain p q where pq: "quotient_of x = (p, q)" by force
  have q: "0 < q" using quotient_of_denom_pos [OF pq] .
  have x: "x = of_int p / of_int q" using quotient_of_div [OF pq] .
  have p: "0 < p" using assms q by (simp add: x zero_less_divide_iff)
  define bp bq where "bp = bit_length p" and "bq = bit_length q"
  from p q have bp: "2 ^ (bp - 1) \<le> p" "p < 2 ^ bp"
    and bq: "2 ^ (bq - 1) \<le> q" "q < 2 ^ bq"
    using bit_length_bounds [of p] bit_length_bounds [of q]
    by (simp_all add: bp_def bq_def)
  have bp1: "1 \<le> bp" and bq1: "1 \<le> bq"
    using p q by (simp_all add: bp_def bq_def bit_length.simps [of p] bit_length.simps [of q])
  have P: "(2::rat) ^ (bp - 1) \<le> of_int p" "of_int p < (2::rat) ^ bp"
  proof -
    from bp(1) have "rat_of_int (2 ^ (bp - 1)) \<le> rat_of_int p"
      by (simp only: of_int_le_iff)
    then show "(2::rat) ^ (bp - 1) \<le> of_int p" by simp
    from bp(2) have "rat_of_int p < rat_of_int (2 ^ bp)"
      by (simp only: of_int_less_iff)
    then show "of_int p < (2::rat) ^ bp" by simp
  qed
  have Q: "(2::rat) ^ (bq - 1) \<le> of_int q" "of_int q < (2::rat) ^ bq"
  proof -
    from bq(1) have "rat_of_int (2 ^ (bq - 1)) \<le> rat_of_int q"
      by (simp only: of_int_le_iff)
    then show "(2::rat) ^ (bq - 1) \<le> of_int q" by simp
    from bq(2) have "rat_of_int q < rat_of_int (2 ^ bq)"
      by (simp only: of_int_less_iff)
    then show "of_int q < (2::rat) ^ bq" by simp
  qed
  define k where "k = int bp - int bq"
  have "k - 1 = int (bp - 1) - int bq"
    using bp1 by (simp add: k_def)
  then have k1: "(2::rat) powi (k - 1) = 2 ^ (bp - 1) / 2 ^ bq"
    by (simp add: power_int_diff)
  have "k + 1 = int bp - int (bq - 1)"
    using bq1 by (simp add: k_def)
  then have k2: "(2::rat) powi (k + 1) = 2 ^ bp / 2 ^ (bq - 1)"
    by (simp add: power_int_diff)
  have lower: "(2::rat) powi (k - 1) < x"
    unfolding k1 x using P(1) Q(2) q
    by (intro frac_less2) simp_all
  have upper: "x < (2::rat) powi (k + 1)"
    unfolding k2 x using P(2) Q(1) p
    by (intro frac_less) simp_all
  have il: "ilog2 x = (if 2 powi k \<le> x then k else k - 1)"
    by (simp add: ilog2_def pq Let_def k_def bp_def bq_def)
  show "2 powi (ilog2 x) \<le> x"
    using lower by (simp add: il)
  show "x < 2 powi (ilog2 x + 1)"
    using upper by (auto simp: il not_le)
qed

lemma ilog2_unique:
  assumes "2 powi e \<le> x" and "x < 2 powi (e + 1)"
  shows "ilog2 x = e"
proof -
  have "(0::rat) < 2 powi e" by simp
  with assms(1) have x: "0 < x" by linarith
  note b = ilog2_bounds [OF x]
  from b(1) assms(2) have lt1: "(2::rat) powi ilog2 x < 2 powi (e + 1)" by linarith
  have 1: "ilog2 x < e + 1"
  proof (rule ccontr)
    assume "\<not> ilog2 x < e + 1"
    then have "e + 1 \<le> ilog2 x" by simp
    then have "(2::rat) powi (e + 1) \<le> 2 powi ilog2 x"
      by (intro power_int_increasing) simp_all
    with lt1 show False by linarith
  qed
  from assms(1) b(2) have lt2: "(2::rat) powi e < 2 powi (ilog2 x + 1)" by linarith
  have 2: "e < ilog2 x + 1"
  proof (rule ccontr)
    assume "\<not> e < ilog2 x + 1"
    then have "ilog2 x + 1 \<le> e" by simp
    then have "(2::rat) powi (ilog2 x + 1) \<le> 2 powi e"
      by (intro power_int_increasing) simp_all
    with lt2 show False by linarith
  qed
  from 1 2 show ?thesis by simp
qed

lemma round_half_even_unique:
  assumes "of_int n - 1 / 2 < m" and "m < of_int n + 1 / 2"
  shows "round_half_even m = n"
proof (cases "of_int n \<le> m")
  case True
  with assms have "\<lfloor>m\<rfloor> = n"
    by (intro floor_unique) linarith+
  with assms show ?thesis
    by (simp add: round_half_even_def Let_def)
next
  case False
  have n1: "rat_of_int (n - 1) = of_int n - 1" by simp
  from False assms have "rat_of_int (n - 1) \<le> m" "m < of_int (n - 1) + 1"
    unfolding n1 by linarith+
  then have fl: "\<lfloor>m\<rfloor> = n - 1"
    by (rule floor_unique)
  from assms(1) have "1 / 2 < m - of_int (n - 1)"
    unfolding n1 by linarith
  then show ?thesis
    by (simp add: round_half_even_def Let_def fl)
qed

text \<open>Rounding to a double moves a positive number by at most \<open>2^-53\<close> of itself.\<close>

lemma to_double_error:
  assumes "0 < x"
  shows "\<bar>to_double x - x\<bar> \<le> x / 2 ^ 53"
proof -
  define e where "e = ilog2 x"
  define q where "q = (2::rat) powi (e - 52)"
  have qpos: "0 < q" by (simp add: q_def)
  have td: "to_double x = of_int (round_half_even (x / q)) * q"
    using assms by (simp add: to_double_def Let_def e_def q_def)
  have "to_double x - x = (of_int (round_half_even (x / q)) - x / q) * q"
    using qpos by (simp add: td left_diff_distrib)
  then have "\<bar>to_double x - x\<bar> = \<bar>of_int (round_half_even (x / q)) - x / q\<bar> * q"
    using qpos by (simp add: abs_mult)
  also have "\<dots> \<le> 1 / 2 * q"
    using round_half_even_error [of "x / q"] qpos by (intro mult_right_mono) simp_all
  also have "1 / 2 * q = 2 powi e / 2 ^ 53"
    by (simp add: q_def power_int_diff)
  also have "\<dots> \<le> x / 2 ^ 53"
    using ilog2_bounds(1) [OF assms] by (simp add: e_def divide_right_mono)
  finally show ?thesis .
qed

lemma to_double_nonneg: "0 \<le> x \<Longrightarrow> 0 \<le> to_double x"
  by (simp add: to_double_def Let_def round_half_even_nonneg)

lemma to_double_zero [simp]: "to_double 0 = 0"
  by (simp add: to_double_def)

text \<open>The computed percentage is within \<open>300 * 2^-53\<close> of the exact one.\<close>

lemma rate_error:
  assumes "d \<le> t" and "0 < t"
  defines "f2 \<equiv> double_mul (double_div (rat_of_nat d) (rat_of_nat t)) 100"
  shows "\<bar>f2 - 100 * (rat_of_nat d / rat_of_nat t)\<bar> \<le> 300 / 2 ^ 53" and "0 \<le> f2"
proof -
  define x where "x = rat_of_nat d / rat_of_nat t"
  have x01: "0 \<le> x" "x \<le> 1"
    using assms by (simp_all add: x_def)
  define f1 where "f1 = to_double x"
  have f2: "f2 = to_double (f1 * 100)"
    by (simp add: f2_def double_mul_def double_div_def f1_def x_def)
  have f1pos: "0 \<le> f1"
    using x01 by (simp add: f1_def to_double_nonneg)
  then show "0 \<le> f2"
    by (simp add: f2 to_double_nonneg)
  show "\<bar>f2 - 100 * (rat_of_nat d / rat_of_nat t)\<bar> \<le> 300 / 2 ^ 53"
  proof (cases "x = 0")
    case True
    then show ?thesis
      by (simp add: f2 f1_def x_def [symmetric])
  next
    case False
    with x01 have xpos: "0 < x" by simp
    have e1: "\<bar>f1 - x\<bar> \<le> x / 2 ^ 53"
      unfolding f1_def by (rule to_double_error [OF xpos])
    have "x / 2 ^ 53 < x" using xpos by simp
    with e1 have f1gt: "0 < f1" and f1le: "f1 \<le> 2 * x"
      by linarith+
    have e2: "\<bar>f2 - f1 * 100\<bar> \<le> f1 * 100 / 2 ^ 53"
      unfolding f2 using f1gt by (intro to_double_error) simp
    from e1 have a: "f1 - x \<le> x / 2 ^ 53" "x - f1 \<le> x / 2 ^ 53"
      by linarith+
    from e2 have b: "f2 - f1 * 100 \<le> f1 * 100 / 2 ^ 53" "f1 * 100 - f2 \<le> f1 * 100 / 2 ^ 53"
      by linarith+
    have "\<bar>f2 - 100 * x\<bar> \<le> f1 * 100 / 2 ^ 53 + 100 * (x / 2 ^ 53)"
    proof (rule abs_leI)
      show "f2 - 100 * x \<le> f1 * 100 / 2 ^ 53 + 100 * (x / 2 ^ 53)"
        using a b by linarith
      show "- (f2 - 100 * x) \<le> f1 * 100 / 2 ^ 53 + 100 * (x / 2 ^ 53)"
        using a b by linarith
    qed
    also have "\<dots> \<le> 2 * x * 100 / 2 ^ 53 + 100 * (x / 2 ^ 53)"
      using f1le by (simp add: divide_right_mono)
    also have "\<dots> = 300 * x / 2 ^ 53" by simp
    also have "\<dots> \<le> 300 / 2 ^ 53"
      using x01 by (simp add: divide_right_mono)
    finally show ?thesis by (simp add: x_def)
  qed
qed

text \<open>How far such an error can move the result of \<open>Math.round\<close>.\<close>

lemma floor_near:
  fixes a b :: rat
  assumes "\<bar>a - b\<bar> < 1"
  shows "\<bar>\<lfloor>a\<rfloor> - \<lfloor>b\<rfloor>\<bar> \<le> 1"
proof -
  from assms have "a \<le> b + 1" "b \<le> a + 1" by linarith+
  then have "\<lfloor>a\<rfloor> \<le> \<lfloor>b + 1\<rfloor>" "\<lfloor>b\<rfloor> \<le> \<lfloor>a + 1\<rfloor>"
    by (simp_all only: floor_mono)
  then show ?thesis by simp
qed

lemma floor_of_fraction_stable:
  fixes A B :: int and e :: rat
  assumes B: "0 < B" and e: "\<bar>e\<bar> < 1 / of_int B"
  shows "\<lfloor>of_int A / of_int B + e\<rfloor> = \<lfloor>rat_of_int A / of_int B\<rfloor>
     \<or> (B dvd A \<and> \<lfloor>of_int A / of_int B + e\<rfloor> = \<lfloor>rat_of_int A / of_int B\<rfloor> - 1)"
proof -
  define m where "m = A div B"
  define r where "r = A mod B"
  have A: "A = B * m + r" by (simp add: m_def r_def)
  have r: "0 \<le> r" "r < B" using B by (simp_all add: r_def)
  have fl: "\<lfloor>rat_of_int A / of_int B\<rfloor> = m"
    by (simp add: m_def floor_divide_of_int_eq)
  have z: "rat_of_int A / of_int B = of_int m + of_int r / of_int B"
    using B by (simp add: A add_divide_distrib)
  have B1: "1 / rat_of_int B \<le> 1"
    using B by simp
  from e have e2: "- (1 / of_int B) < e" "e < 1 / of_int B" by linarith+
  show ?thesis
  proof (cases "r = 0")
    case True
    then have dvd: "B dvd A" by (simp add: r_def dvd_eq_mod_eq_0)
    have zm: "rat_of_int A / of_int B + e = of_int m + e"
      by (simp add: z True)
    show ?thesis
    proof (cases "0 \<le> e")
      case True
      with e2 B1 have "\<lfloor>of_int m + e\<rfloor> = m"
        by (intro floor_unique) linarith+
      then show ?thesis by (simp add: zm fl)
    next
      case False
      have m1: "rat_of_int (m - 1) = of_int m - 1" by simp
      from False e2 B1 have "rat_of_int (m - 1) \<le> of_int m + e"
        "rat_of_int m + e < of_int (m - 1) + 1"
        unfolding m1 by linarith+
      then have "\<lfloor>of_int m + e\<rfloor> = m - 1"
        by (rule floor_unique)
      with dvd show ?thesis by (simp add: zm fl)
    qed
  next
    case False
    with r have r1: "1 \<le> r" "r \<le> B - 1" by simp_all
    then have "rat_of_int 1 \<le> of_int r" "rat_of_int r \<le> of_int (B - 1)"
      by (simp_all only: of_int_le_iff)
    then have "1 / of_int B \<le> rat_of_int r / of_int B"
      "rat_of_int r / of_int B \<le> (of_int B - 1) / of_int B"
      using B by (simp_all add: divide_right_mono)
    moreover have "(rat_of_int B - 1) / of_int B = 1 - 1 / of_int B"
      using B by (simp add: diff_divide_distrib)
    ultimately have "of_int m \<le> rat_of_int A / of_int B + e"
      "rat_of_int A / of_int B + e < of_int m + 1"
      using e2 unfolding z by linarith+
    then have "\<lfloor>rat_of_int A / of_int B + e\<rfloor> = m"
      by (rule floor_unique)
    then show ?thesis by (simp add: fl)
  qed
qed

lemma statusCounts_partition:
  "\<forall>t \<in> set ts. status t \<in> set TaskStatus \<Longrightarrow>
   sc_todo (statusCounts ts) + sc_in_progress (statusCounts ts) + sc_done (statusCounts ts)
     + sc_blocked (statusCounts ts) = totalTasks ts"
  by (induction ts) (auto simp: statusCounts_def totalTasks_def TaskStatus_def js_def)

lemma done_le_total: "sc_done (statusCounts ts) \<le> totalTasks ts"
  by (simp add: statusCounts_def totalTasks_def)

lemma completionRate_analysis:
  assumes ne: "ts \<noteq> []"
  shows "0 \<le> completionRate ts" and "completionRate ts \<le> 100"
    and "\<bar>completionRate ts - claimed_completionRate ts\<bar> \<le> 1"
    and "length ts < 2 ^ 32 \<Longrightarrow>
         completionRate ts = claimed_completionRate ts
         \<or> (rate_is_tie ts \<and> completionRate ts = claimed_completionRate ts - 1)"
proof -
  define d where "d = sc_done (statusCounts ts)"
  define t where "t = totalTasks ts"
  have t: "0 < t" and dt: "d \<le> t"
    using ne done_le_total [of ts] by (simp_all add: t_def d_def totalTasks_def)
  define y where "y = 100 * (rat_of_nat d / rat_of_nat t)"
  define f2 where "f2 = double_mul (double_div (rat_of_nat d) (rat_of_nat t)) 100"
  have err: "\<bar>f2 - y\<bar> \<le> 300 / 2 ^ 53" and f2pos: "0 \<le> f2"
    unfolding f2_def y_def using rate_error [OF dt t] by simp_all
  have "rat_of_nat d / rat_of_nat t \<le> 1"
    using t dt by (simp add: divide_le_eq_1)
  then have y: "0 \<le> y" "y \<le> 100"
    by (simp_all add: y_def)
  have code: "completionRate ts = \<lfloor>f2 + 1 / 2\<rfloor>"
    using t by (simp add: completionRate_def Math_round_def f2_def d_def t_def)
  have claim: "claimed_completionRate ts = \<lfloor>y + 1 / 2\<rfloor>"
    using ne by (simp add: claimed_completionRate_def round_def y_def d_def t_def)
  have small: "(300::rat) / 2 ^ 53 < 1 / 2" by simp
  from f2pos show "0 \<le> completionRate ts"
    by (simp add: code zero_le_floor)
  from err y small have "f2 + 1 / 2 < 101" by linarith
  then have "\<lfloor>f2 + 1 / 2\<rfloor> < 101"
    by (simp add: floor_less_iff)
  then show "completionRate ts \<le> 100"
    by (simp add: code)
  from err small have "\<bar>(f2 + 1 / 2) - (y + 1 / 2)\<bar> < 1" by linarith
  then show "\<bar>completionRate ts - claimed_completionRate ts\<bar> \<le> 1"
    unfolding code claim by (rule floor_near)
  assume len: "length ts < 2 ^ 32"
  define A where "A = int (200 * d + t)"
  define B where "B = int (2 * t)"
  have B: "0 < B" using t by (simp add: B_def)
  have AB: "rat_of_int A / of_int B = y + 1 / 2"
    using t by (simp add: A_def B_def y_def add_divide_distrib)
  from len have "B < 2 ^ 33"
    by (simp add: B_def t_def totalTasks_def)
  then have "rat_of_int B < of_int (2 ^ 33)"
    by (simp only: of_int_less_iff)
  then have "rat_of_int B * 300 < 2 ^ 53" by simp
  with B have "300 / 2 ^ 53 < 1 / rat_of_int B"
    by (simp add: field_simps)
  with err have e: "\<bar>f2 - y\<bar> < 1 / of_int B" by linarith
  have sum: "y + 1 / 2 + (f2 - y) = f2 + 1 / 2"
    by simp
  have tie: "B dvd A \<longleftrightarrow> rate_is_tie ts"
    unfolding A_def B_def rate_is_tie_def d_def t_def by (simp only: int_dvd_int_iff)
  from floor_of_fraction_stable [OF B e, of A]
  show "completionRate ts = claimed_completionRate ts
         \<or> (rate_is_tie ts \<and> completionRate ts = claimed_completionRate ts - 1)"
    unfolding AB sum code claim tie .
qed

text \<open>
  C7, amended. When every status is one of the four of \<open>TaskStatus\<close>, the four counts
  add up to the number of tasks. \<open>completionRate\<close> is \<open>0\<close> for the empty list, so the
  division is guarded. For a non-empty list it is \<open>Math.round\<close> of the double
  \<open>(doneCount / total) * 100\<close>: an integer from 0 to 100, within 1 of
  \<open>round(100 * doneCount / total)\<close>. For a list of fewer than \<open>2^32\<close> tasks, as every
  JavaScript array is, it equals \<open>round(100 * doneCount / total)\<close> unless
  \<open>100 * doneCount / total\<close> lies exactly half-way between two integers, where it is
  that value or one less.
\<close>

theorem home_page_statistics:
  assumes "\<forall>t \<in> set ts. status t \<in> set TaskStatus"
  shows "sc_todo (statusCounts ts) + sc_in_progress (statusCounts ts)
           + sc_done (statusCounts ts) + sc_blocked (statusCounts ts) = totalTasks ts
     \<and> (ts = [] \<longrightarrow> completionRate ts = 0)
     \<and> (ts \<noteq> [] \<longrightarrow> completionRate ts =
           Math_round (double_mul (double_div (rat_of_nat (sc_done (statusCounts ts)))
                                              (rat_of_nat (totalTasks ts))) 100))
     \<and> 0 \<le> completionRate ts \<and> completionRate ts \<le> 100
     \<and> \<bar>completionRate ts - claimed_completionRate ts\<bar> \<le> 1
     \<and> (length ts < 2 ^ 32 \<longrightarrow>
           completionRate ts = claimed_completionRate ts
           \<or> (rate_is_tie ts \<and> completionRate ts = claimed_completionRate ts - 1))"
proof (cases "ts = []")
  case True
  then show ?thesis
    by (simp add: completionRate_def claimed_completionRate_def statusCounts_def totalTasks_def)
next
  case False
  have "completionRate ts =
           Math_round (double_mul (double_div (rat_of_nat (sc_done (statusCounts ts)))
                                              (rat_of_nat (totalTasks ts))) 100)"
    using False by (simp add: completionRate_def totalTasks_def)
  with False statusCounts_partition [OF assms] completionRate_analysis [OF False]
  show ?thesis by blast
qed

lemma filter_replicate_status:
  "length (filter (\<lambda>t. status t = s) (replicate n x)) = (if status x = s then n else 0)"
  by (induction n) simp_all

text \<open>
  C7 as stated fails for 23 done tasks out of 40: \<open>23 / 40\<close> is the double just below
  0.575, its hundredfold rounds to the double 57.49999999999999, and \<open>Math.round\<close>
  gives 57, while \<open>round(100 * 23 / 40) = round(57.5) = 58\<close>.
\<close>

theorem completionRate_counterexample:
  "set (map status forty_tasks) \<subseteq> set TaskStatus
   \<and> sc_done (statusCounts forty_tasks) = 23
   \<and> totalTasks forty_tasks = 40
   \<and> completionRate forty_tasks = 57
   \<and> round (100 * rat_of_nat 23 / rat_of_nat 40) = 58
   \<and> claimed_completionRate forty_tasks = 58"
proof -
  have st: "status done_task = js ''done''" "status (todoToTask example_todo) = js ''todo''"
    by (simp_all add: done_task_def todoToTask_def example_todo_def)
  have neq: "js ''todo'' \<noteq> js ''done''"
    by (simp add: js_def)
  have a: "set (map status forty_tasks) \<subseteq> set TaskStatus"
    by (simp add: forty_tasks_def st TaskStatus_def)
  have d: "sc_done (statusCounts forty_tasks) = 23"
    using neq by (simp add: statusCounts_def forty_tasks_def filter_replicate_status st)
  have t: "totalTasks forty_tasks = 40"
    by (simp add: totalTasks_def forty_tasks_def)
  have "Math_round (double_mul (double_div 23 40) 100) = 57"
    by code_simp
  then have c: "completionRate forty_tasks = 57"
    by (simp add: completionRate_def d t)
  have r: "round (100 * rat_of_nat 23 / rat_of_nat 40) = 58"
    unfolding round_def by (rule floor_unique) simp_all
  have ne: "forty_tasks \<noteq> []"
    by (simp add: forty_tasks_def)
  from r have "claimed_completionRate forty_tasks = 58"
    by (simp add: claimed_completionRate_def ne d t)
  with a d t c r show ?thesis by blast
qed

text \<open>
  The three example tasks (one todo, one done, one blocked): the counts add up to 3,
  \<open>100 / 3\<close> is no tie, and the rate is 33.
\<close>

theorem home_page_statistics_witness:
  "set (map status example_tasks) \<subseteq> set TaskStatus
   \<and> sc_todo (statusCounts example_tasks) + sc_in_progress (statusCounts example_tasks)
       + sc_done (statusCounts example_tasks) + sc_blocked (statusCounts example_tasks) = 3
   \<and> length example_tasks < 2 ^ 32
   \<and> \<not> rate_is_tie example_tasks
   \<and> claimed_completionRate example_tasks = 33
   \<and> completionRate example_tasks = 33"
proof -
  have st: "map status example_tasks = [js ''todo'', js ''done'', js ''blocked'']"
    by (simp add: example_tasks_def todoToTask_def example_todo_def)
  have a: "set (map status example_tasks) \<subseteq> set TaskStatus"
    by (simp add: st TaskStatus_def)
  then have hyp: "\<forall>t \<in> set example_tasks. status t \<in> set TaskStatus"
    by auto
  have len: "length example_tasks = 3"
    by (simp add: example_tasks_def)
  obtain x1 x2 x3 where xs: "example_tasks = [x1, x2, x3]"
    by (simp add: example_tasks_def)
  from st [unfolded xs] have sx: "status x1 = js ''todo''" "status x2 = js ''done''"
    "status x3 = js ''blocked''"
    by simp_all
  have d: "sc_done (statusCounts example_tasks) = 1"
    by (simp add: statusCounts_def xs sx js_def)
  have t: "totalTasks example_tasks = 3"
    by (simp add: totalTasks_def len)
  have tie: "\<not> rate_is_tie example_tasks"
    by (simp add: rate_is_tie_def d t)
  have ne: "example_tasks \<noteq> []"
    by (simp add: xs)
  have "round (100 * rat_of_nat 1 / rat_of_nat 3) = 33"
    unfolding round_def by (rule floor_unique) simp_all
  then have cl: "claimed_completionRate example_tasks = 33"
    by (simp add: claimed_completionRate_def ne d t)
  have l: "length example_tasks < 2 ^ 32"
    by (simp add: len)
  from home_page_statistics [OF hyp] tie cl l t a show ?thesis
    by simp
qed

end
